theory Spec2Isabelle
  imports Complex_Main "HOL-Library.Multiset" "HOL-Library.AList"
begin

section \<open>JavaScript values\<close>

text \<open>
  A JavaScript number is a finite value, \<open>NaN\<close>, \<open>Infinity\<close> or \<open>-Infinity\<close>.
  Finite doubles are idealised as reals: rounding error, overflow to infinity and the
  sign of zero are not represented.
\<close>

datatype jsnum = Fin real | NaN | PosInf | NegInf

text \<open>The operator \<open><\<close> on numbers; every comparison with \<open>NaN\<close> is false.\<close>

fun js_lt :: "jsnum \<Rightarrow> jsnum \<Rightarrow> bool" where
  "js_lt NaN b = False"
| "js_lt a NaN = False"
| "js_lt (Fin x) (Fin y) = (x < y)"
| "js_lt (Fin x) PosInf = True"
| "js_lt (Fin x) NegInf = False"
| "js_lt PosInf b = False"
| "js_lt NegInf NegInf = False"
| "js_lt NegInf b = True"

definition js_gt :: "jsnum \<Rightarrow> jsnum \<Rightarrow> bool" where
  "js_gt a b = js_lt b a"

text \<open>\<open>Math.min(a, b)\<close>: \<open>NaN\<close> if either argument is, the smaller one otherwise.\<close>

fun Math_min :: "jsnum \<Rightarrow> jsnum \<Rightarrow> jsnum" where
  "Math_min NaN b = NaN"
| "Math_min a NaN = NaN"
| "Math_min a b = (if js_lt b a then b else a)"

fun js_add :: "jsnum \<Rightarrow> jsnum \<Rightarrow> jsnum" where
  "js_add NaN b = NaN"
| "js_add a NaN = NaN"
| "js_add (Fin x) (Fin y) = Fin (x + y)"
| "js_add (Fin x) b = b"
| "js_add a (Fin y) = a"
| "js_add PosInf PosInf = PosInf"
| "js_add NegInf NegInf = NegInf"
| "js_add PosInf NegInf = NaN"
| "js_add NegInf PosInf = NaN"

text \<open>The sign of a non-\<open>NaN\<close> number, as \<open>-1\<close>, \<open>0\<close> or \<open>1\<close>.\<close>

fun js_sign :: "jsnum \<Rightarrow> int" where
  "js_sign (Fin x) = (if x < 0 then -1 else if x = 0 then 0 else 1)"
| "js_sign PosInf = 1"
| "js_sign NegInf = -1"
| "js_sign NaN = 0"

definition signed_inf :: "int \<Rightarrow> jsnum" where
  "signed_inf s = (if s < 0 then NegInf else if s = 0 then NaN else PosInf)"

fun js_mul :: "jsnum \<Rightarrow> jsnum \<Rightarrow> jsnum" where
  "js_mul NaN b = NaN"
| "js_mul a NaN = NaN"
| "js_mul (Fin x) (Fin y) = Fin (x * y)"
| "js_mul a b = signed_inf (js_sign a * js_sign b)"

fun js_div :: "jsnum \<Rightarrow> jsnum \<Rightarrow> jsnum" where
  "js_div NaN b = NaN"
| "js_div a NaN = NaN"
| "js_div (Fin x) (Fin y) = (if y = 0 then signed_inf (js_sign (Fin x)) else Fin (x / y))"
| "js_div (Fin x) b = Fin 0"
| "js_div a (Fin y) = signed_inf (js_sign a * (if y < 0 then -1 else 1))"
| "js_div a b = NaN"

text \<open>\<open>Math.round\<close>: the nearest integer, a tie going to the larger one.\<close>

fun Math_round :: "jsnum \<Rightarrow> jsnum" where
  "Math_round (Fin x) = Fin (of_int \<lfloor>x + 1 / 2\<rfloor>)"
| "Math_round a = a"

fun isNaN :: "jsnum \<Rightarrow> bool" where
  "isNaN NaN = True"
| "isNaN a = False"

text \<open>
  The values a field read from the database or from parsed JSON can hold. Arrays are not
  represented; an object is the list of its properties in the order of their creation.
\<close>

datatype jsval =
    JUndefined
  | JNull
  | JBool bool
  | JNum jsnum
  | JStr string
  | JObj "(string \<times> jsval) list"

text \<open>Truthiness, as tested by \<open>if (v)\<close> and \<open>v && ...\<close>.\<close>

fun truthy :: "jsval \<Rightarrow> bool" where
  "truthy JUndefined = False"
| "truthy JNull = False"
| "truthy (JBool b) = b"
| "truthy (JNum n) = (n \<noteq> NaN \<and> n \<noteq> Fin 0)"
| "truthy (JStr s) = (s \<noteq> [])"
| "truthy (JObj kvs) = True"

section \<open>Tracked-time links and projects\<close>

record link =
  link_id :: string
  hackatimeName :: string
  rawHours :: jsval
  hoursOverride :: jsval

record project =
  projectID :: string
  userId :: string
  shipped :: bool
  viral :: bool
  hackatimeLinks :: "link list"

text \<open>
  The effective hours of one link, the expression bound to \<open>effectiveHours\<close> in the
  reducer of \<open>GET /api/projects\<close>.
\<close>

definition effectiveHours :: "link \<Rightarrow> jsval" where
  "effectiveHours l =
     (if hoursOverride l \<noteq> JUndefined \<and> hoursOverride l \<noteq> JNull then hoursOverride l
      else (case rawHours l of JNum n \<Rightarrow> JNum n | _ \<Rightarrow> JNum (Fin 0)))"

section \<open>Approved hours of the owners of the projects in review\<close>

text \<open>An exception thrown inside the \<open>try\<close> block of the per-user loop.\<close>

datatype error = Thrown string

text \<open>
  \<open>Array.prototype.sort\<close> with a comparator: a stable sort, here as insertion from the
  right, an element staying in front of the later elements it compares equal to.
\<close>

fun insert_sorted :: "('a \<Rightarrow> 'a \<Rightarrow> real) \<Rightarrow> 'a \<Rightarrow> 'a list \<Rightarrow> 'a list" where
  "insert_sorted cmp x [] = [x]"
| "insert_sorted cmp x (y # ys) =
     (if cmp x y \<le> 0 then x # y # ys else y # insert_sorted cmp x ys)"

fun js_sort :: "('a \<Rightarrow> 'a \<Rightarrow> real) \<Rightarrow> 'a list \<Rightarrow> 'a list" where
  "js_sort cmp [] = []"
| "js_sort cmp (x # xs) = insert_sorted cmp x (js_sort cmp xs)"

text \<open>\<open>Array.prototype.map\<close> with a callback that may throw: the first exception ends it.\<close>

fun mapE :: "('a \<Rightarrow> error + 'b) \<Rightarrow> 'a list \<Rightarrow> error + 'b list" where
  "mapE f [] = Inr []"
| "mapE f (x # xs) =
     (case f x of
        Inl e \<Rightarrow> Inl e
      | Inr y \<Rightarrow> (case mapE f xs of Inl e \<Rightarrow> Inl e | Inr ys \<Rightarrow> Inr (y # ys)))"

text \<open>
  The comparator \<open>(a, b) => b.hours - a.hours\<close> on the pairs \<open>{ project, hours }\<close>.
\<close>

definition byHoursDesc :: "project \<times> real \<Rightarrow> project \<times> real \<Rightarrow> real" where
  "byHoursDesc a b = snd b - snd a"

text \<open>
  \<open>projectsWithHours\<close>: every project paired with its hours, sorted, the first four kept.
  \<open>getProjectHackatimeHours\<close> is imported from a module outside the sources at hand and is a
  parameter here; it returns a finite number or throws.
\<close>

definition projectsWithHours ::
  "(project \<Rightarrow> error + real) \<Rightarrow> project list \<Rightarrow> error + (project \<times> real) list" where
  "projectsWithHours getProjectHackatimeHours userProjects =
     (case mapE (\<lambda>p. case getProjectHackatimeHours p of
                        Inl e \<Rightarrow> Inl e
                      | Inr hours \<Rightarrow> Inr (p, hours)) userProjects of
        Inl e \<Rightarrow> Inl e
      | Inr withHours \<Rightarrow> Inr (take 4 (js_sort byHoursDesc withHours)))"

text \<open>
  The body of the \<open>forEach\<close> callback once \<open>projectApprovedHours\<close> is known: the new value
  of \<open>userApprovedHours\<close> and the final value of \<open>contributedHours\<close>.
\<close>

definition contribute :: "jsnum \<Rightarrow> project \<Rightarrow> jsnum \<Rightarrow> jsnum \<times> jsnum" where
  "contribute userApprovedHours p projectApprovedHours =
     (if viral p \<and> js_gt projectApprovedHours (Fin 0) then
        (let contributedHours = Math_min projectApprovedHours (Fin 15)
         in (js_add userApprovedHours contributedHours, contributedHours))
      else if shipped p \<and> js_gt projectApprovedHours (Fin 0) then
        (let contributedHours = Math_min projectApprovedHours (Fin 15)
         in (js_add userApprovedHours contributedHours, contributedHours))
      else if \<not> shipped p \<and> \<not> viral p then
        (if js_gt projectApprovedHours (Fin 0) then
           (let contributedHours = Math_min projectApprovedHours (Fin 15)
            in (js_add userApprovedHours contributedHours, contributedHours))
         else (userApprovedHours, Fin 0))
      else (userApprovedHours, Fin 0))"

text \<open>
  The \<open>forEach\<close> over the selected projects. \<open>getProjectApprovedHours\<close> is imported from
  the same absent module and is a parameter; it returns a number or throws.
\<close>

fun forEachProject ::
  "(project \<Rightarrow> error + jsnum) \<Rightarrow> jsnum \<Rightarrow> (project \<times> real) list \<Rightarrow> error + jsnum" where
  "forEachProject getProjectApprovedHours userApprovedHours [] = Inr userApprovedHours"
| "forEachProject getProjectApprovedHours userApprovedHours (ph # rest) =
     (case getProjectApprovedHours (fst ph) of
        Inl e \<Rightarrow> Inl e
      | Inr projectApprovedHours \<Rightarrow>
          forEachProject getProjectApprovedHours
            (fst (contribute userApprovedHours (fst ph) projectApprovedHours)) rest)"

text \<open>
  The \<open>try\<close> block for one user: \<open>findMany\<close> is the database query for the user's projects.
\<close>

definition finalHours ::
  "(string \<Rightarrow> error + project list) \<Rightarrow> (project \<Rightarrow> error + real) \<Rightarrow>
   (project \<Rightarrow> error + jsnum) \<Rightarrow> string \<Rightarrow> error + jsnum" where
  "finalHours findMany getProjectHackatimeHours getProjectApprovedHours uid =
     (case findMany uid of
        Inl e \<Rightarrow> Inl e
      | Inr userProjects \<Rightarrow>
          (case projectsWithHours getProjectHackatimeHours userProjects of
             Inl e \<Rightarrow> Inl e
           | Inr selected \<Rightarrow>
               (case forEachProject getProjectApprovedHours (Fin 0) selected of
                  Inl e \<Rightarrow> Inl e
                | Inr userApprovedHours \<Rightarrow> Inr (Math_min userApprovedHours (Fin 60)))))"

text \<open>
  The loop \<open>for (const userId of userIds)\<close> filling \<open>userProjectsMap\<close>; the \<open>catch\<close>
  stores \<open>0\<close> for the user whose computation threw.
\<close>

fun userLoop ::
  "(string \<Rightarrow> error + project list) \<Rightarrow> (project \<Rightarrow> error + real) \<Rightarrow>
   (project \<Rightarrow> error + jsnum) \<Rightarrow> string list \<Rightarrow> (string \<rightharpoonup> jsnum) \<Rightarrow> (string \<rightharpoonup> jsnum)" where
  "userLoop findMany hk ah [] userProjectsMap = userProjectsMap"
| "userLoop findMany hk ah (uid # rest) userProjectsMap =
     userLoop findMany hk ah rest
       (userProjectsMap(uid \<mapsto>
          (case finalHours findMany hk ah uid of Inl e \<Rightarrow> Fin 0 | Inr h \<Rightarrow> h)))"

section \<open>Shop item form\<close>

text \<open>
  The conversions between texts and numbers that the JavaScript runtime provides are
  parameters of the model: \<open>parseFloat\<close> and \<open>parseInt\<close> on a text, the conversion of a
  text to a number that \<open>*\<close> applies to a string operand, and \<open>Number.prototype.toString\<close>.
\<close>

record runtime =
  parseFloat_s :: "string \<Rightarrow> jsnum"
  parseInt_s :: "string \<Rightarrow> jsnum"
  ToNumber_s :: "string \<Rightarrow> jsnum"
  Number_toString :: "jsnum \<Rightarrow> string"

text \<open>
  The text of a value, as \<open>parseFloat\<close> makes it before it reads a number off it. No
  property of an object parsed from JSON is callable, so an object with a key \<open>toString\<close>
  of its own has no method left that yields a primitive, and the conversion throws a
  \<open>TypeError\<close>; every other object has the text of \<open>Object.prototype.toString\<close>.
\<close>

fun ToString :: "runtime \<Rightarrow> jsval \<Rightarrow> error + string" where
  "ToString rt JUndefined = Inr ''undefined''"
| "ToString rt JNull = Inr ''null''"
| "ToString rt (JBool b) = Inr (if b then ''true'' else ''false'')"
| "ToString rt (JNum n) = Inr (Number_toString rt n)"
| "ToString rt (JStr s) = Inr s"
| "ToString rt (JObj kvs) =
     (if map_of kvs ''toString'' = None then Inr ''[object Object]''
      else Inl (Thrown ''TypeError''))"

definition parseFloat :: "runtime \<Rightarrow> jsval \<Rightarrow> error + jsnum" where
  "parseFloat rt v =
     (case ToString rt v of Inl e \<Rightarrow> Inl e | Inr s \<Rightarrow> Inr (parseFloat_s rt s))"

text \<open>
  The number an operand of \<open>*\<close> is converted to. An object goes through the same two
  methods, \<open>valueOf\<close> first, so it throws in the same case and is \<open>NaN\<close> otherwise.
\<close>

fun ToNumber :: "runtime \<Rightarrow> jsval \<Rightarrow> error + jsnum" where
  "ToNumber rt JUndefined = Inr NaN"
| "ToNumber rt JNull = Inr (Fin 0)"
| "ToNumber rt (JBool b) = Inr (Fin (if b then 1 else 0))"
| "ToNumber rt (JNum n) = Inr n"
| "ToNumber rt (JStr s) = Inr (ToNumber_s rt s)"
| "ToNumber rt (JObj kvs) =
     (if map_of kvs ''toString'' = None then Inr NaN else Inl (Thrown ''TypeError''))"

text \<open>
  Reading a property that is not a built-in member: a \<open>TypeError\<close> on \<open>null\<close> and
  \<open>undefined\<close>, \<open>undefined\<close> on the other primitives and for a key the object lacks.
\<close>

fun getProp :: "jsval \<Rightarrow> string \<Rightarrow> error + jsval" where
  "getProp JUndefined k = Inl (Thrown ''TypeError'')"
| "getProp JNull k = Inl (Thrown ''TypeError'')"
| "getProp (JObj kvs) k = Inr (case map_of kvs k of None \<Rightarrow> JUndefined | Some v \<Rightarrow> v)"
| "getProp v k = Inr JUndefined"

datatype costType = Fixed | Config

text \<open>
  The text of the config field is represented by what \<open>JSON.parse\<close> makes of it: the field
  is empty, or its text is not JSON, or it parses to a value.
\<close>

datatype configText = EmptyText | InvalidJSON | Parsed jsval

record formData =
  name :: string
  description :: string
  image :: string
  price :: string
  usdCost :: string
  costType :: costType
  config :: configText
  useRandomizedPricing :: bool

record globalConfig =
  dollars_per_hour :: "string option"
  price_random_min_percent :: "string option"
  price_random_max_percent :: "string option"

definition phi :: real where
  "phi = (1 + sqrt 5) / 2"

text \<open>
  The two computations that both branches of the auto-calculation share:
  \<open>Math.round(hours * phi * 10)\<close>, and the update of the price field, made when the text
  of the field differs from the text of the new price.
\<close>

definition shellsOf :: "jsnum \<Rightarrow> jsnum" where
  "shellsOf hours = Math_round (js_mul (js_mul hours (Fin phi)) (Fin 10))"

definition setPrice :: "runtime \<Rightarrow> formData \<Rightarrow> jsnum \<Rightarrow> formData" where
  "setPrice rt fd shells =
     (if price fd \<noteq> Number_toString rt shells
      then fd\<lparr>price := Number_toString rt shells\<rparr>
      else fd)"

text \<open>\<open>configObj\<close>: the parsed config, or \<open>{}\<close> for an empty or unparseable text.\<close>

definition configObj :: "formData \<Rightarrow> jsval" where
  "configObj fd = (case config fd of Parsed v \<Rightarrow> v | _ \<Rightarrow> JObj [])"

text \<open>
  The effect that auto-calculates the price of a config item in \<open>ShopItemsPage\<close>: the form
  data after the effect, or the exception the effect throws.
\<close>

definition autoCalculatePrice :: "runtime \<Rightarrow> formData \<Rightarrow> error + formData" where
  "autoCalculatePrice rt fd =
     (if costType fd = Config then
        (let usd = parseFloat_s rt (usdCost fd)
         in case getProp (configObj fd) ''dollars_per_hour'' of
              Inl e \<Rightarrow> Inl e
            | Inr dph \<Rightarrow>
                if truthy dph \<and> \<not> isNaN usd then
                  (case parseFloat rt dph of
                     Inl e \<Rightarrow> Inl e
                   | Inr itemDollarsPerHour \<Rightarrow>
                       (let hours = js_div usd itemDollarsPerHour
                        in Inr (setPrice rt fd (shellsOf hours))))
                else
                  (case getProp (configObj fd) ''hours_equal_to_one_percent_progress'' of
                     Inl e \<Rightarrow> Inl e
                   | Inr h \<Rightarrow>
                       if truthy h then
                         (case ToNumber rt h of
                            Inl e \<Rightarrow> Inl e
                          | Inr hours \<Rightarrow> Inr (setPrice rt fd (shellsOf hours)))
                       else Inr fd))
      else Inr fd)"

text \<open>The body of the request that \<open>handleSubmit\<close> sends.\<close>

record payload =
  payload_name :: string
  payload_description :: string
  payload_image :: "string option"
  payload_price :: jsnum
  payload_usdCost :: jsnum
  payload_costType :: costType
  payload_config :: jsval
  payload_useRandomizedPricing :: bool

text \<open>The text \<open>globalConfig.dollars_per_hour || '0'\<close>.\<close>

definition globalRateText :: "globalConfig \<Rightarrow> string" where
  "globalRateText gc =
     (case dollars_per_hour gc of None \<Rightarrow> ''0'' | Some s \<Rightarrow> if s = [] then ''0'' else s)"

text \<open>
  \<open>handleSubmit\<close> up to the request: the payload, or the exception that the \<open>catch\<close> turns
  into an error message. \<open>calculateShellPrice\<close> is imported from a module outside the
  sources at hand and is a parameter.
\<close>

definition handleSubmit ::
  "runtime \<Rightarrow> (jsnum \<Rightarrow> jsnum \<Rightarrow> error + jsnum) \<Rightarrow> globalConfig \<Rightarrow> formData \<Rightarrow> error + payload" where
  "handleSubmit rt calculateShellPrice gc fd =
     (case config fd of
        InvalidJSON \<Rightarrow> Inl (Thrown ''SyntaxError'')
      | cfgText \<Rightarrow>
          (let cfg = (case cfgText of Parsed v \<Rightarrow> v | _ \<Rightarrow> JNull);
               finalPrice = parseInt_s rt (price fd);
               usd = parseFloat_s rt (usdCost fd);
               dollarsPerHour = parseFloat_s rt (globalRateText gc);
               send = (\<lambda>p. \<lparr>payload_name = name fd,
                            payload_description = description fd,
                            payload_image = (if image fd = [] then None else Some (image fd)),
                            payload_price = p,
                            payload_usdCost = usd,
                            payload_costType = costType fd,
                            payload_config = cfg,
                            payload_useRandomizedPricing = useRandomizedPricing fd\<rparr>)
           in if costType fd \<noteq> Config \<and> js_gt usd (Fin 0) \<and> js_gt dollarsPerHour (Fin 0)
              then (case calculateShellPrice usd dollarsPerHour of
                      Inl e \<Rightarrow> Inl e
                    | Inr p \<Rightarrow> Inr (send p))
              else Inr (send finalPrice)))"

text \<open>
  Modelled from the spec: \<open>calculateShellPrice\<close> of \<open>lib/shop-utils\<close>, which is not among
  the sources at hand. The spec gives the base price of a fixed item as
  \<open>round((usdCost / dollarsPerHour) * phi * 10)\<close>, rounding half away from zero, and has a
  negative or non-finite cost, rate or product rejected as \<open>InvalidCostBasis\<close>.
\<close>

definition round_half_away :: "real \<Rightarrow> int" where
  "round_half_away x = (if x < 0 then - \<lfloor>- x + 1 / 2\<rfloor> else \<lfloor>x + 1 / 2\<rfloor>)"

definition calculateShellPrice :: "jsnum \<Rightarrow> jsnum \<Rightarrow> error + jsnum" where
  "calculateShellPrice usd dollarsPerHour =
     (case (usd, dollarsPerHour, js_mul (js_mul (js_div usd dollarsPerHour) (Fin phi)) (Fin 10)) of
        (Fin u, Fin r, Fin x) \<Rightarrow>
          if u < 0 \<or> r < 0 \<or> x < 0 then Inl (Thrown ''InvalidCostBasis'')
          else Inr (Fin (of_int (round_half_away x)))
      | _ \<Rightarrow> Inl (Thrown ''InvalidCostBasis''))"

text \<open>
  A runtime for the examples: it reads and writes the decimal texts of a few integers as
  JavaScript does, and no example uses another text of a number.
\<close>

definition example_numbers :: "(string \<times> real) list" where
  "example_numbers =
     [(''0'', 0), (''5'', 5), (''7'', 7), (''8'', 8), (''10'', 10), (''13'', 13),
      (''16'', 16), (''32'', 32), (''-10'', -10), (''-16'', -16)]"

definition example_runtime :: runtime where
  "example_runtime =
     \<lparr>parseFloat_s = (\<lambda>s. case map_of example_numbers s of Some x \<Rightarrow> Fin x | None \<Rightarrow> NaN),
      parseInt_s = (\<lambda>s. case map_of example_numbers s of Some x \<Rightarrow> Fin x | None \<Rightarrow> NaN),
      ToNumber_s = (\<lambda>s. if s = [] then Fin 0
                       else case map_of example_numbers s of Some x \<Rightarrow> Fin x | None \<Rightarrow> NaN),
      Number_toString = (\<lambda>n. case n of
          Fin x \<Rightarrow> (case map_of (map (\<lambda>(s, y). (y, s)) example_numbers) x of
                      Some s \<Rightarrow> s | None \<Rightarrow> ''?'')
        | NaN \<Rightarrow> ''NaN'' | PosInf \<Rightarrow> ''Infinity'' | NegInf \<Rightarrow> ''-Infinity'')\<rparr>"

section \<open>Updating a project\<close>

text \<open>
  The session user of \<open>PUT /api/projects\<close>; \<open>isAdmin\<close> holds when the field of that
  name is \<open>true\<close>.
\<close>

record user =
  user_id :: string
  role :: string
  isAdmin :: bool

text \<open>
  The two tables the handler writes: the projects by \<open>projectID\<close>, each with its owner
  and its scalar columns, and the links by \<open>id\<close>. The audit log is a table of its own and
  is left out.
\<close>

record stored_project =
  owner :: string
  columns :: "(string \<times> jsval) list"

record database =
  project_table :: "string \<rightharpoonup> stored_project"
  link_table :: "string \<rightharpoonup> link"

text \<open>
  The body of the request: JSON as parsed, or multipart form data as the list of its
  fields in order, each value a text.
\<close>

datatype body = Json jsval | Multipart "(string \<times> string) list"

text \<open>\<open>formData.get(k)?.toString() || ''\<close>: the first value of the field, or the empty text.\<close>

definition fieldText :: "(string \<times> string) list \<Rightarrow> string \<Rightarrow> string" where
  "fieldText es k = (case map_of es k of None \<Rightarrow> [] | Some s \<Rightarrow> s)"

text \<open>
  The loop that collects the fields \<open>linkOverride-{id}\<close>: a value that is not blank and
  reads as a number is stored under the id; \<open>trim\<close> is taken to strip ASCII white space.
\<close>

definition trim :: "string \<Rightarrow> string" where
  "trim s =
     (let space = (\<lambda>c. c \<in> set [CHR '' '', CHR 0x09, CHR 0x0A, CHR 0x0B, CHR 0x0C, CHR 0x0D])
      in rev (dropWhile space (rev (dropWhile space s))))"

fun linkOverrides ::
  "runtime \<Rightarrow> (string \<times> string) list \<Rightarrow> (string \<times> jsval) list \<Rightarrow> (string \<times> jsval) list" where
  "linkOverrides rt [] acc = acc"
| "linkOverrides rt ((key, val) # rest) acc =
     (if take 13 key = ''linkOverride-'' then
        (let linkId = drop 13 key
         in if val \<noteq> [] \<and> trim val \<noteq> [] then
              (let hours = parseFloat_s rt val
               in if \<not> isNaN hours
                  then linkOverrides rt rest (AList.update linkId (JNum hours) acc)
                  else linkOverrides rt rest acc)
            else linkOverrides rt rest acc)
      else linkOverrides rt rest acc)"

text \<open>
  \<open>projectData\<close> after parsing. The multipart branch builds an object literal from the
  fields. The JSON branch takes the parsed body and overwrites \<open>hoursOverride\<close> with itself
  when it is a number and with \<open>undefined\<close> otherwise; the assignment throws on a body that
  is not an object.
\<close>

definition projectData :: "runtime \<Rightarrow> body \<Rightarrow> error + (string \<times> jsval) list" where
  "projectData rt b =
     (case b of
        Multipart es \<Rightarrow>
          Inr [(''projectID'', JStr (fieldText es ''projectID'')),
               (''name'', JStr (fieldText es ''name'')),
               (''description'', JStr (fieldText es ''description'')),
               (''codeUrl'', JStr (fieldText es ''codeUrl'')),
               (''playableUrl'', JStr (fieldText es ''playableUrl'')),
               (''screenshot'', JStr (fieldText es ''screenshot'')),
               (''chat_enabled'', JBool (map_of es ''chat_enabled'' = Some ''on'')),
               (''shipped'', JBool (map_of es ''shipped'' = Some ''true'')),
               (''viral'', JBool (map_of es ''viral'' = Some ''true'')),
               (''in_review'', JBool (map_of es ''in_review'' = Some ''true'')),
               (''hoursOverride'',
                  if fieldText es ''hoursOverride'' \<noteq> []
                  then JNum (parseFloat_s rt (fieldText es ''hoursOverride''))
                  else JUndefined),
               (''hackatimeLinkOverrides'', JObj (linkOverrides rt es []))]
      | Json (JObj kvs) \<Rightarrow>
          Inr (AList.update ''hoursOverride''
                 (case map_of kvs ''hoursOverride'' of
                    Some (JNum n) \<Rightarrow> JNum n
                  | _ \<Rightarrow> JUndefined) kvs)
      | Json _ \<Rightarrow> Inl (Thrown ''TypeError''))"

definition userUpdateableFields :: "string list" where
  "userUpdateableFields =
     [''name'', ''description'', ''codeUrl'', ''playableUrl'', ''screenshot'', ''chat_enabled'']"

definition reviewerUpdateableFields :: "string list" where
  "reviewerUpdateableFields = ''in_review'' # userUpdateableFields"

definition nonUpdateableFields :: "string list" where
  "nonUpdateableFields = [''hackatimeName'']"

definition isAdminUser :: "user \<Rightarrow> bool" where
  "isAdminUser u = (role u = ''Admin'' \<or> isAdmin u)"

definition isReviewerUser :: "user \<Rightarrow> bool" where
  "isReviewerUser u = (role u = ''Reviewer'')"

text \<open>
  \<open>updateFields\<close> as passed to \<open>prisma.project.update\<close>: the rest of the destructuring,
  without \<open>hoursOverride\<close>, filtered by the role of the user.
\<close>

definition updateFields :: "user \<Rightarrow> (string \<times> jsval) list \<Rightarrow> (string \<times> jsval) list" where
  "updateFields u pd =
     (let rest = filter (\<lambda>(k, v). k \<noteq> ''projectID'' \<and> k \<noteq> ''hackatimeLinkOverrides'') pd;
          stripped = AList.delete ''hoursOverride'' rest
      in if isAdminUser u then
           filter (\<lambda>(k, v). k \<notin> set nonUpdateableFields \<and> v \<noteq> JUndefined) stripped
         else if isReviewerUser u then
           filter (\<lambda>(k, v). k \<in> set reviewerUpdateableFields \<and>
                             k \<notin> set nonUpdateableFields \<and> v \<noteq> JUndefined) stripped
         else
           filter (\<lambda>(k, v). k \<in> set userUpdateableFields \<and>
                             k \<notin> set nonUpdateableFields \<and> v \<noteq> JUndefined) stripped)"

text \<open>
  \<open>prisma.project.update\<close>: the columns named in \<open>data\<close> take the new values. The schema,
  which is not among the sources at hand, decides which data the call accepts; the
  predicate \<open>accepts\<close> stands for it, and the call throws on data it rejects.
\<close>

definition writeColumns :: "(string \<times> jsval) list \<Rightarrow> (string \<times> jsval) list \<Rightarrow> (string \<times> jsval) list" where
  "writeColumns data cols = fold (\<lambda>(k, v) cs. AList.update k v cs) data cols"

text \<open>
  The loop over \<open>Object.entries(hackatimeLinkOverrides)\<close>. An update of a link that does
  not exist throws; the updates made before it stay. The result is the table and whether
  the loop threw.
\<close>

fun applyLinkOverrides ::
  "(string \<times> jsval) list \<Rightarrow> (string \<rightharpoonup> link) \<Rightarrow> bool \<times> (string \<rightharpoonup> link)" where
  "applyLinkOverrides [] tbl = (False, tbl)"
| "applyLinkOverrides ((linkId, hours) # rest) tbl =
     (let new = (case hours of
                   JNum n \<Rightarrow> if \<not> isNaN n then Some (JNum n) else None
                 | JNull \<Rightarrow> Some JNull
                 | JUndefined \<Rightarrow> Some JNull
                 | JStr s \<Rightarrow> if s = [] then Some JNull else None
                 | _ \<Rightarrow> None)
      in case new of
           None \<Rightarrow> applyLinkOverrides rest tbl
         | Some v \<Rightarrow>
             (case tbl linkId of
                None \<Rightarrow> (True, tbl)
              | Some l \<Rightarrow> applyLinkOverrides rest (tbl(linkId \<mapsto> l\<lparr>hoursOverride := v\<rparr>))))"

text \<open>
  \<open>Object.entries\<close> of an object: the keys that are array indices come first, in
  ascending order, then the other keys in the order of their creation. An array index is
  the decimal text, without leading zeros, of a number below \<open>2^32 - 1\<close>.
\<close>

definition digit :: "char \<Rightarrow> bool" where
  "digit c = (48 \<le> (of_char c :: nat) \<and> (of_char c :: nat) \<le> 57)"

definition decimal :: "string \<Rightarrow> nat" where
  "decimal s = foldl (\<lambda>n c. 10 * n + (of_char c - 48)) 0 s"

definition arrayIndex :: "string \<Rightarrow> bool" where
  "arrayIndex s =
     (s \<noteq> [] \<and> list_all digit s \<and> (hd s \<noteq> CHR ''0'' \<or> s = ''0'') \<and>
      decimal s < 2 ^ 32 - 1)"

definition Object_entries :: "(string \<times> jsval) list \<Rightarrow> (string \<times> jsval) list" where
  "Object_entries kvs =
     sort_key (\<lambda>(k, v). decimal k) (filter (\<lambda>(k, v). arrayIndex k) kvs) @
     filter (\<lambda>(k, v). \<not> arrayIndex k) kvs"

text \<open>
  The entries of \<open>hackatimeLinkOverrides\<close> that the loop can act on. Numbers and booleans
  have no entries, and the entries of a string are its characters, which pass neither
  test of the loop.
\<close>

fun overrideEntries :: "jsval \<Rightarrow> (string \<times> jsval) list" where
  "overrideEntries (JObj kvs) = Object_entries kvs"
| "overrideEntries v = []"

text \<open>
  The handler: the status of the response and the database after the request.
\<close>

definition PUT ::
  "runtime \<Rightarrow> ((string \<times> jsval) list \<Rightarrow> bool) \<Rightarrow> user \<Rightarrow> body \<Rightarrow> database \<Rightarrow>
   nat \<times> database" where
  "PUT rt accepts u b db =
     (case projectData rt b of
        Inl e \<Rightarrow> (500, db)
      | Inr pd \<Rightarrow>
          (let projectID = (case map_of pd ''projectID'' of None \<Rightarrow> JUndefined | Some v \<Rightarrow> v);
               hackatimeLinkOverrides =
                 (case map_of pd ''hackatimeLinkOverrides'' of None \<Rightarrow> JUndefined | Some v \<Rightarrow> v);
               data = updateFields u pd
           in if \<not> truthy projectID then (400, db)
              else (case projectID of
                 JStr pid \<Rightarrow>
                   (case project_table db pid of
                      None \<Rightarrow> (404, db)
                    | Some existingProject \<Rightarrow>
                        if \<not> isAdminUser u \<and> owner existingProject \<noteq> user_id u then (404, db)
                        else if \<not> accepts data then (500, db)
                        else
                          (let db1 = db\<lparr>project_table := (project_table db)(pid \<mapsto>
                                 existingProject\<lparr>columns :=
                                   writeColumns data (columns existingProject)\<rparr>)\<rparr>
                           in if (isAdminUser u \<or> isReviewerUser u) \<and>
                                 truthy hackatimeLinkOverrides \<and>
                                 overrideEntries hackatimeLinkOverrides \<noteq> []
                              then
                                (case applyLinkOverrides
                                        (overrideEntries hackatimeLinkOverrides) (link_table db1) of
                                   (threw, tbl) \<Rightarrow>
                                     (if threw then 500 else 200, db1\<lparr>link_table := tbl\<rparr>))
                              else (200, db1)))
               | _ \<Rightarrow> (500, db))))"

section \<open>Randomized prices\<close>






text \<open>A schema that accepts every update, for the examples.\<close>

definition accepts_all :: "(string \<times> jsval) list \<Rightarrow> bool" where
  "accepts_all data = True"

section \<open>Properties of the approved-hours computation\<close>

lemma mapE_all_Inr:
  "(\<And>x. x \<in> set xs \<Longrightarrow> f x = Inr (g x)) \<Longrightarrow> mapE f xs = Inr (map g xs)"
  by (induction xs) auto

lemma insert_sorted_insort:
  "insert_sorted byHoursDesc x ys = insort_key (\<lambda>a. - snd a) x ys"
  by (induction ys) (auto simp: byHoursDesc_def)

lemma js_sort_sort_key:
  "js_sort byHoursDesc xs = sort_key (\<lambda>a. - snd a) xs"
  by (induction xs) (auto simp: insert_sorted_insort)

lemma Math_min_cap:
  "js_gt a (Fin 0) \<Longrightarrow> \<exists>c. Math_min a (Fin 15) = Fin c \<and> 0 < c \<and> c \<le> 15"
  by (cases a) (auto simp: js_gt_def)

lemma contribute_Fin:
  "\<exists>c. 0 \<le> c \<and> c \<le> 15 \<and> (\<forall>t. contribute (Fin t) p a = (Fin (t + c), Fin c))"
proof (cases "js_gt a (Fin 0)")
  case True
  then obtain c where c: "Math_min a (Fin 15) = Fin c" "0 < c" "c \<le> 15"
    using Math_min_cap by blast
  then show ?thesis
    by (intro exI[of _ "if viral p \<or> shipped p \<or> (\<not> shipped p \<and> \<not> viral p) then c else 0"])
       (auto simp: contribute_def Let_def True)
next
  case False
  then show ?thesis
    by (intro exI[of _ 0]) (auto simp: contribute_def)
qed

lemma insert_sorted_map:
  assumes "\<And>a b. cmp (g a) (g b) = cmp a b"
  shows "insert_sorted cmp (g x) (map g ys) = map g (insert_sorted cmp x ys)"
  by (induction ys) (auto simp: assms)

lemma js_sort_map:
  assumes "\<And>a b. cmp (g a) (g b) = cmp a b"
  shows "js_sort cmp (map g xs) = map g (js_sort cmp xs)"
  by (induction xs) (simp_all add: insert_sorted_map assms)

lemma withHours_all_Inr:
  assumes "\<And>p. p \<in> set ps \<Longrightarrow> hk p = Inr (h p)"
  shows "projectsWithHours hk ps = Inr (take 4 (js_sort byHoursDesc (map (\<lambda>p. (p, h p)) ps)))"
proof -
  have "mapE (\<lambda>p. case hk p of Inl e \<Rightarrow> Inl e | Inr hours \<Rightarrow> Inr (p, hours)) ps
        = Inr (map (\<lambda>p. (p, h p)) ps)"
    by (rule mapE_all_Inr) (simp add: assms)
  then show ?thesis by (simp add: projectsWithHours_def)
qed

lemma forEachProject_cong:
  assumes "\<And>ph. ph \<in> set sel \<Longrightarrow> ah' (fst ph) = ah (fst ph)"
  shows "forEachProject ah' t sel = forEachProject ah t sel"
  using assms by (induction sel arbitrary: t) (auto split: sum.splits)

lemma forEachProject_sum:
  assumes "\<And>ph. ph \<in> set sel \<Longrightarrow> ah (fst ph) = Inr (a (fst ph))"
      and "map (\<lambda>ph. snd (contribute (Fin 0) (fst ph) (a (fst ph)))) sel = map Fin cs"
  shows "forEachProject ah (Fin t) sel = Inr (Fin (t + sum_list cs))"
  using assms
proof (induction sel arbitrary: t cs)
  case Nil
  then show ?case by simp
next
  case (Cons ph sel)
  from Cons.prems(2) obtain c cs' where cs: "cs = c # cs'"
    and c: "snd (contribute (Fin 0) (fst ph) (a (fst ph))) = Fin c"
    and rest: "map (\<lambda>ph. snd (contribute (Fin 0) (fst ph) (a (fst ph)))) sel = map Fin cs'"
    by (cases cs) auto
  obtain d where d: "\<And>t. contribute (Fin t) (fst ph) (a (fst ph)) = (Fin (t + d), Fin d)"
    using contribute_Fin by blast
  with c have "d = c" by simp
  have "forEachProject ah (Fin (t + c)) sel = Inr (Fin (t + c + sum_list cs'))"
    by (rule Cons.IH) (simp_all add: Cons.prems(1) rest)
  then show ?case
    by (simp add: Cons.prems(1) d \<open>d = c\<close> cs add.assoc)
qed

lemma contributions_exist:
  "\<exists>cs. map (\<lambda>ph. snd (contribute (Fin 0) (fst ph) (a (fst ph)))) sel = map Fin cs
        \<and> (\<forall>c\<in>set cs. 0 \<le> c \<and> c \<le> 15)"
proof (induction sel)
  case Nil
  then show ?case by simp
next
  case (Cons ph sel)
  then obtain cs where cs: "map (\<lambda>ph. snd (contribute (Fin 0) (fst ph) (a (fst ph)))) sel = map Fin cs"
      "\<forall>c\<in>set cs. 0 \<le> c \<and> c \<le> 15" by blast
  obtain d where d: "0 \<le> d" "d \<le> 15" "\<And>t. contribute (Fin t) (fst ph) (a (fst ph)) = (Fin (t + d), Fin d)"
    using contribute_Fin by blast
  show ?case
    by (rule exI[of _ "d # cs"]) (simp add: cs d)
qed

lemma sum_list_bound:
  fixes cs :: "real list"
  assumes "\<forall>c\<in>set cs. 0 \<le> c \<and> c \<le> 15"
  shows "0 \<le> sum_list cs \<and> sum_list cs \<le> 15 * real (length cs)"
  using assms by (induction cs) (auto simp: algebra_simps)

lemma contribute_branches:
  "snd (contribute t p x) =
     (if viral p \<and> js_gt x (Fin 0) then Math_min x (Fin 15)
      else if shipped p \<and> js_gt x (Fin 0) then Math_min x (Fin 15)
      else if \<not> shipped p \<and> \<not> viral p
           then (if js_gt x (Fin 0) then Math_min x (Fin 15) else Fin 0)
      else Fin 0)"
  by (simp add: contribute_def Let_def)


lemma byHoursDesc_apfst: "byHoursDesc (apfst f a) (apfst f b) = byHoursDesc a b"
  by (simp add: byHoursDesc_def)

lemma finalHours_cong:
  assumes "findMany uid = Inr ps" "findMany' uid = Inr ps'"
      and "projectsWithHours hk ps = Inr sel" "projectsWithHours hk' ps' = Inr sel"
      and "\<And>ph. ph \<in> set sel \<Longrightarrow> ah' (fst ph) = ah (fst ph)"
  shows "finalHours findMany' hk' ah' uid = finalHours findMany hk ah uid"
proof -
  have "forEachProject ah' (Fin 0) sel = forEachProject ah (Fin 0) sel"
    by (rule forEachProject_cong) (rule assms(5))
  then show ?thesis by (simp add: finalHours_def assms(1-4))
qed


lemma finalHours_findMany_cong:
  "findMany' uid = findMany uid \<Longrightarrow> finalHours findMany' hk ah uid = finalHours findMany hk ah uid"
  by (simp add: finalHours_def)

lemma userLoop_entry:
  "userLoop findMany hk ah userIds m v =
     (if v \<in> set userIds
      then Some (case finalHours findMany hk ah v of Inl e \<Rightarrow> Fin 0 | Inr x \<Rightarrow> x)
      else m v)"
  by (induction userIds arbitrary: m) auto


lemma approved_hours_when_helpers_return:
  assumes "findMany uid = Inr ps"
      and "\<forall>p\<in>set ps. hk p = Inr (h p)"
      and "\<forall>p\<in>set ps. ah p = Inr (a p)"
  shows "\<exists>sel cs.
           projectsWithHours hk ps = Inr sel \<and>
           (\<forall>ph\<in>set sel. \<forall>t.
              snd (contribute t (fst ph) (a (fst ph))) =
                (if viral (fst ph) \<and> js_gt (a (fst ph)) (Fin 0) then Math_min (a (fst ph)) (Fin 15)
                 else if shipped (fst ph) \<and> js_gt (a (fst ph)) (Fin 0)
                      then Math_min (a (fst ph)) (Fin 15)
                 else if \<not> shipped (fst ph) \<and> \<not> viral (fst ph)
                      then (if js_gt (a (fst ph)) (Fin 0)
                            then Math_min (a (fst ph)) (Fin 15) else Fin 0)
                 else Fin 0)) \<and>
           map (\<lambda>ph. snd (contribute (Fin 0) (fst ph) (a (fst ph)))) sel = map Fin cs \<and>
           finalHours findMany hk ah uid = Inr (Fin (min (sum_list cs) 60)) \<and>
           0 \<le> min (sum_list cs) 60 \<and> min (sum_list cs) 60 \<le> 60"
proof -
  define sel where "sel = take 4 (js_sort byHoursDesc (map (\<lambda>p. (p, h p)) ps))"
  have sel: "projectsWithHours hk ps = Inr sel"
    unfolding sel_def by (rule withHours_all_Inr) (simp add: assms(2))
  have "set sel \<subseteq> set (js_sort byHoursDesc (map (\<lambda>p. (p, h p)) ps))"
    unfolding sel_def by (rule set_take_subset)
  then have in_ps: "fst ph \<in> set ps" if "ph \<in> set sel" for ph
    using that by (auto simp: js_sort_sort_key)
  obtain cs where cs: "map (\<lambda>ph. snd (contribute (Fin 0) (fst ph) (a (fst ph)))) sel = map Fin cs"
    and bound: "\<forall>c\<in>set cs. 0 \<le> c \<and> c \<le> 15"
    using contributions_exist by blast
  have "forEachProject ah (Fin 0) sel = Inr (Fin (0 + sum_list cs))"
  proof (rule forEachProject_sum)
    show "ah (fst ph) = Inr (a (fst ph))" if "ph \<in> set sel" for ph
      using in_ps[OF that] assms(3) by simp
    show "map (\<lambda>ph. snd (contribute (Fin 0) (fst ph) (a (fst ph)))) sel = map Fin cs"
      by (rule cs)
  qed
  then have fin: "finalHours findMany hk ah uid = Inr (Fin (min (sum_list cs) 60))"
    by (simp add: finalHours_def assms(1) sel min_def)
  have "0 \<le> sum_list cs" using sum_list_bound[OF bound] by simp
  then have rng: "0 \<le> min (sum_list cs) 60 \<and> min (sum_list cs) 60 \<le> 60" by simp
  show ?thesis
    using sel cs fin rng contribute_branches by blast
qed


lemma forEachProject_range:
  "forEachProject ah (Fin t) sel = Inr v \<Longrightarrow>
   \<exists>s. v = Fin (t + s) \<and> 0 \<le> s \<and> s \<le> 15 * real (length sel)"
proof (induction sel arbitrary: t)
  case Nil
  then show ?case by (intro exI[of _ 0]) simp
next
  case (Cons ph sel)
  from Cons.prems obtain x where x: "ah (fst ph) = Inr x"
    by (auto split: sum.splits)
  obtain d where d: "0 \<le> d" "d \<le> 15"
    "\<And>t. contribute (Fin t) (fst ph) x = (Fin (t + d), Fin d)"
    using contribute_Fin by blast
  from Cons.prems x d(3) have "forEachProject ah (Fin (t + d)) sel = Inr v"
    by simp
  from Cons.IH[OF this] obtain s where s: "v = Fin (t + d + s)" "0 \<le> s"
    "s \<le> 15 * real (length sel)" by blast
  show ?case
    by (rule exI[of _ "d + s"]) (use s d in \<open>simp add: algebra_simps\<close>)
qed

lemma projectsWithHours_length:
  "projectsWithHours hk ps = Inr sel \<Longrightarrow> length sel \<le> 4"
  by (auto simp: projectsWithHours_def split: sum.splits)

lemma finalHours_range:
  assumes "finalHours findMany hk ah uid = Inr v"
  shows "\<exists>r. v = Fin r \<and> 0 \<le> r \<and> r \<le> 60"
proof -
  from assms obtain ps sel total where "findMany uid = Inr ps"
    and sel: "projectsWithHours hk ps = Inr sel"
    and total: "forEachProject ah (Fin 0) sel = Inr total"
    and v: "v = Math_min total (Fin 60)"
    by (auto simp: finalHours_def split: sum.splits)
  from forEachProject_range[OF total] obtain s where s: "total = Fin s" "0 \<le> s"
    by auto
  with v have "v = Fin (min s 60)" by (simp add: min_def)
  moreover have "0 \<le> min s 60" "min s 60 \<le> 60" using s by simp_all
  ultimately show ?thesis by blast
qed
text \<open>
  Claim C1. Whenever the computation for a user returns, its result is a finite number
  between 0 and 60. When the query and both helpers return, every selected project
  contributes by the three-way branch: \<open>Math.min(approved, 15)\<close> for a viral project with
  approved hours above zero, the same for a shipped one, the same for a project neither
  shipped nor viral with approved hours above zero, and \<open>0\<close> in every other case. The
  result is the sum of the contributions capped at 60, a finite number between 0 and 60.
\<close>

theorem approved_hours_branches_and_cap:
  "(\<forall>v. finalHours findMany hk ah uid = Inr v \<longrightarrow> (\<exists>r. v = Fin r \<and> 0 \<le> r \<and> r \<le> 60)) \<and>
   (findMany uid = Inr ps \<and> (\<forall>p\<in>set ps. hk p = Inr (h p)) \<and>
    (\<forall>p\<in>set ps. ah p = Inr (a p)) \<longrightarrow>
      (\<exists>sel cs.
         projectsWithHours hk ps = Inr sel \<and>
         (\<forall>ph\<in>set sel. \<forall>t.
            snd (contribute t (fst ph) (a (fst ph))) =
              (if viral (fst ph) \<and> js_gt (a (fst ph)) (Fin 0) then Math_min (a (fst ph)) (Fin 15)
               else if shipped (fst ph) \<and> js_gt (a (fst ph)) (Fin 0)
                    then Math_min (a (fst ph)) (Fin 15)
               else if \<not> shipped (fst ph) \<and> \<not> viral (fst ph)
                    then (if js_gt (a (fst ph)) (Fin 0)
                          then Math_min (a (fst ph)) (Fin 15) else Fin 0)
               else Fin 0)) \<and>
         map (\<lambda>ph. snd (contribute (Fin 0) (fst ph) (a (fst ph)))) sel = map Fin cs \<and>
         finalHours findMany hk ah uid = Inr (Fin (min (sum_list cs) 60)) \<and>
         0 \<le> min (sum_list cs) 60 \<and> min (sum_list cs) 60 \<le> 60))"
proof (intro conjI allI impI)
  fix v
  assume "finalHours findMany hk ah uid = Inr v"
  then show "\<exists>r. v = Fin r \<and> 0 \<le> r \<and> r \<le> 60"
    by (rule finalHours_range)
next
  assume ret: "findMany uid = Inr ps \<and> (\<forall>p\<in>set ps. hk p = Inr (h p)) \<and>
    (\<forall>p\<in>set ps. ah p = Inr (a p))"
  show "\<exists>sel cs.
         projectsWithHours hk ps = Inr sel \<and>
         (\<forall>ph\<in>set sel. \<forall>t.
            snd (contribute t (fst ph) (a (fst ph))) =
              (if viral (fst ph) \<and> js_gt (a (fst ph)) (Fin 0) then Math_min (a (fst ph)) (Fin 15)
               else if shipped (fst ph) \<and> js_gt (a (fst ph)) (Fin 0)
                    then Math_min (a (fst ph)) (Fin 15)
               else if \<not> shipped (fst ph) \<and> \<not> viral (fst ph)
                    then (if js_gt (a (fst ph)) (Fin 0)
                          then Math_min (a (fst ph)) (Fin 15) else Fin 0)
               else Fin 0)) \<and>
         map (\<lambda>ph. snd (contribute (Fin 0) (fst ph) (a (fst ph)))) sel = map Fin cs \<and>
         finalHours findMany hk ah uid = Inr (Fin (min (sum_list cs) 60)) \<and>
         0 \<le> min (sum_list cs) 60 \<and> min (sum_list cs) 60 \<le> 60"
    using ret approved_hours_when_helpers_return[where findMany = findMany and uid = uid
        and ps = ps and hk = hk and h = h and ah = ah and a = a]
    by blast
qed

theorem approved_hours_branches_and_cap_witness:
  "let mk = (\<lambda>i s v. \<lparr>projectID = i, userId = ''u'', shipped = s, viral = v, hackatimeLinks = []\<rparr>);
       ps = [mk ''a'' True False, mk ''b'' True False, mk ''c'' True False,
             mk ''d'' True False, mk ''e'' True False];
       h = (\<lambda>p. if projectID p = ''a'' then 50 else if projectID p = ''b'' then 40
                 else if projectID p = ''c'' then 30 else if projectID p = ''d'' then 20 else 10);
       findMany = (\<lambda>u. Inr ps);
       hk = (\<lambda>p. Inr (h p));
       ah = (\<lambda>p. Inr (Fin 20))
   in findMany ''u'' = Inr ps \<and> (\<forall>p\<in>set ps. hk p = Inr (h p)) \<and>
      (\<forall>p\<in>set ps. ah p = Inr (Fin 20)) \<and>
      (\<exists>r. finalHours findMany hk ah ''u'' = Inr (Fin r) \<and> 0 \<le> r \<and> r \<le> 60) \<and>
      finalHours findMany hk ah ''u'' = Inr (Fin 60)"
proof -
  define mk where "mk = (\<lambda>i s v. \<lparr>projectID = i, userId = ''u'', shipped = s, viral = v, hackatimeLinks = []\<rparr>)"
  define ps where "ps = [mk ''a'' True False, mk ''b'' True False, mk ''c'' True False,
             mk ''d'' True False, mk ''e'' True False]"
  define h :: "project \<Rightarrow> real" where "h = (\<lambda>p. if projectID p = ''a'' then 50 else if projectID p = ''b'' then 40
                 else if projectID p = ''c'' then 30 else if projectID p = ''d'' then 20 else 10)"
  define findMany :: "string \<Rightarrow> error + project list" where "findMany = (\<lambda>u. Inr ps)"
  define hk :: "project \<Rightarrow> error + real" where "hk = (\<lambda>p. Inr (h p))"
  define ah :: "project \<Rightarrow> error + jsnum" where "ah = (\<lambda>p. Inr (Fin 20))"
  have h1: "findMany ''u'' = Inr ps" by (simp add: findMany_def)
  have h2: "\<forall>p\<in>set ps. hk p = Inr (h p)" by (simp add: hk_def)
  have h3: "\<forall>p\<in>set ps. ah p = Inr (Fin 20)" by (simp add: ah_def)
  from approved_hours_branches_and_cap[where findMany = findMany and uid = "''u''" and ps = ps
      and hk = hk and h = h and ah = ah and a = "\<lambda>p. Fin 20"] h1 h2 h3
  have ex: "\<exists>r. finalHours findMany hk ah ''u'' = Inr (Fin r) \<and> 0 \<le> r \<and> r \<le> 60"
    by blast
  have val: "finalHours findMany hk ah ''u'' = Inr (Fin 60)"
    by (simp add: finalHours_def findMany_def projectsWithHours_def hk_def ah_def ps_def mk_def
        h_def byHoursDesc_def contribute_def js_gt_def)
  show ?thesis
    unfolding Let_def
    using h1 h2 h3 ex val
    unfolding mk_def ps_def h_def findMany_def hk_def ah_def
    by blast
qed
text \<open>
  Claim C2. The projects are ranked by hours in descending order, equal hours keeping
  their input order; the first four are selected, all of them when there are fewer; and
  replacing projects outside the selection by others of the same hours, with any flags and
  any approved hours, leaves the result as it is.
\<close>

theorem top_four_by_hours:
  assumes "\<forall>p\<in>set ps. hk p = Inr (h p)"
  shows "\<exists>ranked.
           mset ranked = mset (map (\<lambda>p. (p, h p)) ps) \<and>
           sorted (map (\<lambda>ph. - snd ph) ranked) \<and>
           (\<forall>k. filter (\<lambda>ph. snd ph = k) ranked = filter (\<lambda>ph. snd ph = k) (map (\<lambda>p. (p, h p)) ps)) \<and>
           projectsWithHours hk ps = Inr (take 4 ranked) \<and>
           length (take 4 ranked) = min 4 (length ps) \<and>
           (\<forall>findMany findMany' hk' ah ah' uid f.
              findMany uid = Inr ps \<and> findMany' uid = Inr (map f ps) \<and>
              (\<forall>p\<in>set ps. hk' (f p) = Inr (h p)) \<and>
              (\<forall>ph\<in>set (take 4 ranked). f (fst ph) = fst ph \<and> ah' (fst ph) = ah (fst ph))
              \<longrightarrow> finalHours findMany' hk' ah' uid = finalHours findMany hk ah uid)"
proof -
  define ranked where "ranked = js_sort byHoursDesc (map (\<lambda>p. (p, h p)) ps)"
  have rk: "ranked = sort_key (\<lambda>ph. - snd ph) (map (\<lambda>p. (p, h p)) ps)"
    by (simp add: ranked_def js_sort_sort_key)
  have m: "mset ranked = mset (map (\<lambda>p. (p, h p)) ps)"
    unfolding rk by (rule mset_sort)
  have s: "sorted (map (\<lambda>ph. - snd ph) ranked)"
    unfolding rk by (rule sorted_sort_key)
  have st: "filter (\<lambda>ph. snd ph = k) ranked = filter (\<lambda>ph. snd ph = k) (map (\<lambda>p. (p, h p)) ps)" for k
  proof -
    have "filter (\<lambda>ph. - snd ph = - k) ranked
          = filter (\<lambda>ph. - snd ph = - k) (map (\<lambda>p. (p, h p)) ps)"
      unfolding rk by (rule sort_key_stable)
    then show ?thesis by simp
  qed
  have sel: "projectsWithHours hk ps = Inr (take 4 ranked)"
    unfolding ranked_def by (rule withHours_all_Inr) (simp add: assms)
  have len: "length (take 4 ranked) = min 4 (length ps)"
    by (simp add: rk min.commute)
  have ni: "finalHours findMany' hk' ah' uid = finalHours findMany hk ah uid"
    if fm: "findMany uid = Inr ps" and fm': "findMany' uid = Inr (map f ps)"
      and hk': "\<forall>p\<in>set ps. hk' (f p) = Inr (h p)"
      and fixes_sel: "\<forall>ph\<in>set (take 4 ranked). f (fst ph) = fst ph \<and> ah' (fst ph) = ah (fst ph)"
    for findMany findMany' hk' ah ah' uid f
  proof -
    have mp: "mapE (\<lambda>p. case hk' p of Inl e \<Rightarrow> Inl e | Inr hours \<Rightarrow> Inr (p, hours)) (map f ps)
              = Inr (map (\<lambda>p. (f p, h p)) ps)"
      using hk' by (induction ps) auto
    have "map (\<lambda>p. (f p, h p)) ps = map (apfst f) (map (\<lambda>p. (p, h p)) ps)"
      by simp
    then have "js_sort byHoursDesc (map (\<lambda>p. (f p, h p)) ps) = map (apfst f) ranked"
      unfolding ranked_def by (simp only: js_sort_map[of byHoursDesc "apfst f", OF byHoursDesc_apfst])
    then have "projectsWithHours hk' (map f ps) = Inr (map (apfst f) (take 4 ranked))"
      by (simp add: projectsWithHours_def mp take_map)
    moreover have "map (apfst f) (take 4 ranked) = take 4 ranked"
      using fixes_sel by (intro map_idI) (auto simp: apfst_def map_prod_def split: prod.splits)
    ultimately have sel': "projectsWithHours hk' (map f ps) = Inr (take 4 ranked)"
      by simp
    show ?thesis
      by (rule finalHours_cong[where ps = ps and ps' = "map f ps" and sel = "take 4 ranked"])
         (use fm fm' sel sel' fixes_sel in simp_all)
  qed
  show ?thesis
    using m s st sel len ni by blast
qed

theorem top_four_by_hours_witness:
  "let mk = (\<lambda>i s v. \<lparr>projectID = i, userId = ''u'', shipped = s, viral = v, hackatimeLinks = []\<rparr>);
       ps = [mk ''a'' True False, mk ''b'' True False, mk ''c'' True False,
             mk ''d'' True False, mk ''e'' True False];
       h = (\<lambda>p. if projectID p = ''a'' then 50 else if projectID p = ''b'' then 40
                 else if projectID p = ''c'' then 30 else if projectID p = ''d'' then 20 else 10);
       f = (\<lambda>p. if projectID p = ''e'' then p\<lparr>viral := True\<rparr> else p);
       findMany = (\<lambda>u. Inr ps);
       findMany' = (\<lambda>u. Inr (map f ps));
       hk = (\<lambda>p. Inr (h p));
       ah = (\<lambda>p. Inr (Fin 20));
       ah' = (\<lambda>p. if viral p then Inr (Fin 100) else Inr (Fin 20))
   in (\<forall>p\<in>set ps. hk p = Inr (h p)) \<and>
      projectsWithHours hk ps =
        Inr [(mk ''a'' True False, 50), (mk ''b'' True False, 40),
             (mk ''c'' True False, 30), (mk ''d'' True False, 20)] \<and>
      finalHours findMany' hk ah' ''u'' = finalHours findMany hk ah ''u'' \<and>
      finalHours findMany hk ah ''u'' = Inr (Fin 60)"
proof -
  define mk where "mk = (\<lambda>i s v. \<lparr>projectID = i, userId = ''u'', shipped = s, viral = v, hackatimeLinks = []\<rparr>)"
  define ps where "ps = [mk ''a'' True False, mk ''b'' True False, mk ''c'' True False,
             mk ''d'' True False, mk ''e'' True False]"
  define h :: "project \<Rightarrow> real" where "h = (\<lambda>p. if projectID p = ''a'' then 50 else if projectID p = ''b'' then 40
                 else if projectID p = ''c'' then 30 else if projectID p = ''d'' then 20 else 10)"
  define f :: "project \<Rightarrow> project" where "f = (\<lambda>p. if projectID p = ''e'' then p\<lparr>viral := True\<rparr> else p)"
  define findMany :: "string \<Rightarrow> error + project list" where "findMany = (\<lambda>u. Inr ps)"
  define findMany' :: "string \<Rightarrow> error + project list" where "findMany' = (\<lambda>u. Inr (map f ps))"
  define hk :: "project \<Rightarrow> error + real" where "hk = (\<lambda>p. Inr (h p))"
  define ah :: "project \<Rightarrow> error + jsnum" where "ah = (\<lambda>p. Inr (Fin 20))"
  define ah' :: "project \<Rightarrow> error + jsnum" where "ah' = (\<lambda>p. if viral p then Inr (Fin 100) else Inr (Fin 20))"
  have h1: "\<forall>p\<in>set ps. hk p = Inr (h p)" by (simp add: hk_def)
  have sel: "projectsWithHours hk ps =
        Inr [(mk ''a'' True False, 50), (mk ''b'' True False, 40),
             (mk ''c'' True False, 30), (mk ''d'' True False, 20)]"
    by (simp add: projectsWithHours_def hk_def ps_def mk_def h_def byHoursDesc_def)
  from top_four_by_hours[where ps = ps and hk = hk and h = h] h1
  obtain ranked where r: "projectsWithHours hk ps = Inr (take 4 ranked)"
    and ni: "\<And>findMany findMany' hk' ah ah' uid f.
              findMany uid = Inr ps \<and> findMany' uid = Inr (map f ps) \<and>
              (\<forall>p\<in>set ps. hk' (f p) = Inr (h p)) \<and>
              (\<forall>ph\<in>set (take 4 ranked). f (fst ph) = fst ph \<and> ah' (fst ph) = ah (fst ph))
              \<Longrightarrow> finalHours findMany' hk' ah' uid = finalHours findMany hk ah uid"
    by blast
  from r sel have t4: "take 4 ranked = [(mk ''a'' True False, 50), (mk ''b'' True False, 40),
             (mk ''c'' True False, 30), (mk ''d'' True False, 20)]" by simp
  have same: "finalHours findMany' hk ah' ''u'' = finalHours findMany hk ah ''u''"
    by (rule ni[where f = f]) (simp add: t4 findMany_def findMany'_def hk_def h_def f_def ah_def ah'_def ps_def mk_def)
  have val: "finalHours findMany hk ah ''u'' = Inr (Fin 60)"
    by (simp add: finalHours_def findMany_def projectsWithHours_def hk_def ah_def ps_def mk_def
        h_def byHoursDesc_def contribute_def js_gt_def)
  show ?thesis
    unfolding Let_def
    using h1 sel same val
    unfolding mk_def ps_def h_def f_def findMany_def findMany'_def hk_def ah_def ah'_def
    by blast
qed

text \<open>
  Claim C3. When the computation for one user of the batch throws, the loop stores
  \<open>0\<close> for that user and goes on: every user whose computation returns gets exactly the
  returned value, and no entry of another user depends on what the query does for the
  failing one.
\<close>

theorem failing_user_defaults_to_zero:
  "u \<in> set userIds \<and> finalHours findMany hk ah u = Inl e \<longrightarrow>
     userLoop findMany hk ah userIds m u = Some (Fin 0) \<and>
     (\<forall>v\<in>set userIds. \<forall>x. finalHours findMany hk ah v = Inr x \<longrightarrow>
        userLoop findMany hk ah userIds m v = Some x) \<and>
     (\<forall>findMany'. (\<forall>w. w \<noteq> u \<longrightarrow> findMany' w = findMany w) \<longrightarrow>
        (\<forall>v. v \<noteq> u \<longrightarrow>
           userLoop findMany' hk ah userIds m v = userLoop findMany hk ah userIds m v))"
proof (intro impI conjI allI ballI)
  assume a: "u \<in> set userIds \<and> finalHours findMany hk ah u = Inl e"
  then show "userLoop findMany hk ah userIds m u = Some (Fin 0)"
    by (simp add: userLoop_entry)
next
  fix v x
  assume "v \<in> set userIds" "finalHours findMany hk ah v = Inr x"
  then show "userLoop findMany hk ah userIds m v = Some x"
    by (simp add: userLoop_entry)
next
  fix findMany' v
  assume same: "\<forall>w. w \<noteq> u \<longrightarrow> findMany' w = findMany w" and "v \<noteq> u"
  then have "finalHours findMany' hk ah v = finalHours findMany hk ah v"
    by (intro finalHours_findMany_cong) simp
  then show "userLoop findMany' hk ah userIds m v = userLoop findMany hk ah userIds m v"
    by (simp add: userLoop_entry)
qed

theorem failing_user_defaults_to_zero_witness:
  "let p = \<lparr>projectID = ''a'', userId = ''v'', shipped = True, viral = False, hackatimeLinks = []\<rparr>;
       findMany = (\<lambda>w. if w = ''u'' then Inl (Thrown ''database'') else Inr [p]);
       hk = (\<lambda>q. Inr 3);
       ah = (\<lambda>q. Inr (Fin 7))
   in ''u'' \<in> set [''u'', ''v''] \<and>
      finalHours findMany hk ah ''u'' = Inl (Thrown ''database'') \<and>
      finalHours findMany hk ah ''v'' = Inr (Fin 7) \<and>
      userLoop findMany hk ah [''u'', ''v''] Map.empty ''u'' = Some (Fin 0) \<and>
      userLoop findMany hk ah [''u'', ''v''] Map.empty ''v'' = Some (Fin 7)"
proof -
  define p where "p = \<lparr>projectID = ''a'', userId = ''v'', shipped = True, viral = False, hackatimeLinks = []\<rparr>"
  define findMany :: "string \<Rightarrow> error + project list"
    where "findMany = (\<lambda>w. if w = ''u'' then Inl (Thrown ''database'') else Inr [p])"
  define hk :: "project \<Rightarrow> error + real" where "hk = (\<lambda>q. Inr 3)"
  define ah :: "project \<Rightarrow> error + jsnum" where "ah = (\<lambda>q. Inr (Fin 7))"
  have h1: "''u'' \<in> set [''u'', ''v'']" by simp
  have h2: "finalHours findMany hk ah ''u'' = Inl (Thrown ''database'')"
    by (simp add: finalHours_def findMany_def)
  have h3: "finalHours findMany hk ah ''v'' = Inr (Fin 7)"
    by (simp add: finalHours_def findMany_def projectsWithHours_def hk_def ah_def p_def
        contribute_def js_gt_def Let_def)
  from failing_user_defaults_to_zero[where u = "''u''" and userIds = "[''u'', ''v'']"
      and findMany = findMany and hk = hk and ah = ah and e = "Thrown ''database''"
      and m = Map.empty] h1 h2
  have c: "userLoop findMany hk ah [''u'', ''v''] Map.empty ''u'' = Some (Fin 0)"
    and d: "\<forall>v\<in>set [''u'', ''v'']. \<forall>x. finalHours findMany hk ah v = Inr x \<longrightarrow>
        userLoop findMany hk ah [''u'', ''v''] Map.empty v = Some x"
    by blast+
  from d h3 have "userLoop findMany hk ah [''u'', ''v''] Map.empty ''v'' = Some (Fin 7)"
    by simp
  with h1 h2 h3 c show ?thesis
    unfolding Let_def p_def findMany_def hk_def ah_def by blast
qed

section \<open>Properties of the link resolver\<close>

text \<open>
  Claim C7. The effective hours of a link are its \<open>hoursOverride\<close> whenever that is neither
  \<open>null\<close> nor \<open>undefined\<close>, zero included; otherwise \<open>rawHours\<close> when that is a number,
  and \<open>0\<close> otherwise. The expression is total: no field value makes it throw.
\<close>

theorem effective_hours_of_link:
  "(hoursOverride l \<noteq> JUndefined \<and> hoursOverride l \<noteq> JNull \<longrightarrow>
      effectiveHours l = hoursOverride l) \<and>
   (hoursOverride l = JNum (Fin 0) \<longrightarrow> effectiveHours l = JNum (Fin 0)) \<and>
   (hoursOverride l = JUndefined \<or> hoursOverride l = JNull \<longrightarrow>
      (\<forall>n. rawHours l = JNum n \<longrightarrow> effectiveHours l = JNum n) \<and>
      ((\<forall>n. rawHours l \<noteq> JNum n) \<longrightarrow> effectiveHours l = JNum (Fin 0)))"
  by (auto simp: effectiveHours_def split: jsval.splits)

theorem effective_hours_of_link_witness:
  "let l = \<lparr>link_id = ''l1'', hackatimeName = ''game'', rawHours = JNum (Fin 7),
             hoursOverride = JNum (Fin 0)\<rparr>;
       l' = \<lparr>link_id = ''l2'', hackatimeName = ''game'', rawHours = JStr ''7'',
             hoursOverride = JNull\<rparr>
   in hoursOverride l \<noteq> JUndefined \<and> hoursOverride l \<noteq> JNull \<and>
      effectiveHours l = JNum (Fin 0) \<and>
      hoursOverride l' = JNull \<and> (\<forall>n. rawHours l' \<noteq> JNum n) \<and>
      effectiveHours l' = JNum (Fin 0)"
  using effective_hours_of_link[of "\<lparr>link_id = ''l1'', hackatimeName = ''game'',
          rawHours = JNum (Fin 7), hoursOverride = JNum (Fin 0)\<rparr>"]
        effective_hours_of_link[of "\<lparr>link_id = ''l2'', hackatimeName = ''game'',
          rawHours = JStr ''7'', hoursOverride = JNull\<rparr>"]
  by (simp add: Let_def)
section \<open>Properties of the price computations\<close>

lemma sqrt5_bounds: "2236 / 1000 < sqrt 5 \<and> sqrt 5 < 2238 / 1000"
proof
  have "(2236 / 1000 :: real)\<^sup>2 < 5" by (simp add: power2_eq_square)
  then show "2236 / 1000 < sqrt 5" by (rule real_less_rsqrt)
  have "(5::real) < (2238 / 1000)\<^sup>2" by (simp add: power2_eq_square)
  then show "sqrt 5 < 2238 / 1000" by (intro real_less_lsqrt) simp_all
qed

lemma phi_bounds: "1618 / 1000 < phi \<and> phi < 1619 / 1000"
  using sqrt5_bounds by (simp add: phi_def)

lemma floor_phi_10: "\<lfloor>phi * 10 + 1 / 2\<rfloor> = 16"
  using phi_bounds by (simp add: floor_eq_iff)

lemma floor_phi_20: "\<lfloor>2 * phi * 10 + 1 / 2\<rfloor> = 32"
  using phi_bounds by (simp add: floor_eq_iff)

lemma floor_phi_m10: "\<lfloor>- phi * 10 + 1 / 2\<rfloor> = - 16"
  using phi_bounds by (simp add: floor_eq_iff)



lemma shellsOf_Fin: "shellsOf (Fin x) = Fin (of_int \<lfloor>x * phi * 10 + 1 / 2\<rfloor>)"
  by (simp add: shellsOf_def)

lemma setPrice_eq: "setPrice rt fd shells = fd\<lparr>price := Number_toString rt shells\<rparr>"
  by (simp add: setPrice_def)

lemma handleSubmit_computed:
  assumes "costType fd \<noteq> Config" "config fd \<noteq> InvalidJSON"
      and "js_gt (parseFloat_s rt (usdCost fd)) (Fin 0)"
      and "js_gt (parseFloat_s rt (globalRateText gc)) (Fin 0)"
      and "csp (parseFloat_s rt (usdCost fd)) (parseFloat_s rt (globalRateText gc)) = Inr p"
  shows "\<exists>q. handleSubmit rt csp gc fd = Inr q \<and> payload_price q = p"
  using assms by (cases "config fd") (simp_all add: handleSubmit_def Let_def)

lemma handleSubmit_kept:
  assumes "config fd \<noteq> InvalidJSON"
      and "\<not> (costType fd \<noteq> Config \<and> js_gt (parseFloat_s rt (usdCost fd)) (Fin 0) \<and>
              js_gt (parseFloat_s rt (globalRateText gc)) (Fin 0))"
  shows "\<exists>q. handleSubmit rt csp gc fd = Inr q \<and> payload_price q = parseInt_s rt (price fd)"
  using assms by (cases "config fd") (auto simp add: handleSubmit_def Let_def)

lemma handleSubmit_error:
  assumes "handleSubmit rt csp gc fd = Inl e"
  shows "(config fd = InvalidJSON \<and> e = Thrown ''SyntaxError'') \<or>
         csp (parseFloat_s rt (usdCost fd)) (parseFloat_s rt (globalRateText gc)) = Inl e"
  using assms
  by (cases "config fd") (auto simp add: handleSubmit_def Let_def split: if_splits sum.splits)

lemma calculateShellPrice_pos:
  assumes "0 < u" "0 < r"
  shows "calculateShellPrice (Fin u) (Fin r) = Inr (Fin (of_int (round_half_away (u / r * phi * 10))))"
    and "round_half_away (u / r * phi * 10) = \<lfloor>u / r * phi * 10 + 1 / 2\<rfloor>"
    and "0 \<le> round_half_away (u / r * phi * 10)"
proof -
  have "0 < phi" using phi_bounds by simp
  then have pos: "0 < u / r * phi * 10" using assms by simp
  then show "calculateShellPrice (Fin u) (Fin r) = Inr (Fin (of_int (round_half_away (u / r * phi * 10))))"
    using assms by (simp add: calculateShellPrice_def)
  show "round_half_away (u / r * phi * 10) = \<lfloor>u / r * phi * 10 + 1 / 2\<rfloor>"
    using pos by (simp add: round_half_away_def)
  then show "0 \<le> round_half_away (u / r * phi * 10)"
    using pos by simp
qed


lemma configObj_usdCost [simp]: "configObj (fd\<lparr>usdCost := c\<rparr>) = configObj fd"
  by (simp add: configObj_def)

lemma autoCalc_rate:
  assumes "costType fd = Config"
      and "getProp (configObj fd) ''dollars_per_hour'' = Inr d"
      and "truthy d" and "\<not> isNaN (parseFloat_s rt (usdCost fd))"
      and "parseFloat rt d = Inr r"
  shows "autoCalculatePrice rt fd =
           Inr (fd\<lparr>price := Number_toString rt
                  (shellsOf (js_div (parseFloat_s rt (usdCost fd)) r))\<rparr>)"
  using assms by (simp add: autoCalculatePrice_def Let_def setPrice_eq)





lemma shellsOf_div:
  "r \<noteq> 0 \<Longrightarrow> shellsOf (js_div (Fin u) (Fin r)) = Fin (of_int \<lfloor>u / r * phi * 10 + 1 / 2\<rfloor>)"
  by (simp add: shellsOf_def)


text \<open>
  Claim C4, as amended. For a fixed-cost item whose config text is empty or JSON: when the
  USD cost and the global rate both read as finite numbers above zero, their quotient
  within the range of doubles, \<open>handleSubmit\<close> sends the price \<open>round((usdCost / dollarsPerHour) * phi * 10)\<close>, a non-negative integer,
  where \<open>dollarsPerHour\<close> is always the global rate, so that the price is the same for
  every config of the item; when the USD cost or the global rate is not above zero, no
  price is computed and the price of the form is sent as \<open>parseInt\<close> reads it. With a
  config text that is not JSON nothing is sent. For a cost of 10 at a rate of 10 the price
  is 16.
\<close>

theorem fixed_price_from_global_rate:
  "(costType fd = Fixed \<and> config fd \<noteq> InvalidJSON \<and>
    parseFloat_s rt (usdCost fd) = Fin u \<and> 0 < u \<and>
    parseFloat_s rt (globalRateText gc) = Fin r \<and> 0 < r \<and>
    u / r * phi * 10 < 2 ^ 1023 \<longrightarrow>
      (\<exists>p. handleSubmit rt calculateShellPrice gc fd = Inr p \<and>
           payload_price p = Fin (of_int (round_half_away (u / r * phi * 10))) \<and>
           0 \<le> round_half_away (u / r * phi * 10) \<and>
           (\<forall>c. c \<noteq> InvalidJSON \<longrightarrow>
              (\<exists>q. handleSubmit rt calculateShellPrice gc (fd\<lparr>config := c\<rparr>) = Inr q \<and>
                   payload_price q = payload_price p)))) \<and>
   (costType fd = Fixed \<and> config fd \<noteq> InvalidJSON \<and>
    \<not> (js_gt (parseFloat_s rt (usdCost fd)) (Fin 0) \<and>
       js_gt (parseFloat_s rt (globalRateText gc)) (Fin 0)) \<longrightarrow>
      (\<exists>p. handleSubmit rt csp gc fd = Inr p \<and> payload_price p = parseInt_s rt (price fd))) \<and>
   (config fd = InvalidJSON \<longrightarrow> handleSubmit rt csp gc fd = Inl (Thrown ''SyntaxError'')) \<and>
   round_half_away (10 / 10 * phi * 10) = 16"
proof -
  have p1: "\<exists>p. handleSubmit rt calculateShellPrice gc fd = Inr p \<and>
           payload_price p = Fin (of_int (round_half_away (u / r * phi * 10))) \<and>
           0 \<le> round_half_away (u / r * phi * 10) \<and>
           (\<forall>c. c \<noteq> InvalidJSON \<longrightarrow>
              (\<exists>q. handleSubmit rt calculateShellPrice gc (fd\<lparr>config := c\<rparr>) = Inr q \<and>
                   payload_price q = payload_price p))"
    if a: "costType fd = Fixed \<and> config fd \<noteq> InvalidJSON \<and>
      parseFloat_s rt (usdCost fd) = Fin u \<and> 0 < u \<and>
      parseFloat_s rt (globalRateText gc) = Fin r \<and> 0 < r \<and>
      u / r * phi * 10 < 2 ^ 1023"
  proof -
    let ?v = "Fin (of_int (round_half_away (u / r * phi * 10)))"
    from a have u: "0 < u" and r: "0 < r" by simp_all
    have csp: "calculateShellPrice (Fin u) (Fin r) = Inr ?v"
      by (rule calculateShellPrice_pos(1)[OF u r])
    have any: "\<exists>q. handleSubmit rt calculateShellPrice gc (fd\<lparr>config := c\<rparr>) = Inr q \<and>
                   payload_price q = ?v" if "c \<noteq> InvalidJSON" for c
      by (rule handleSubmit_computed) (use a that csp in \<open>simp_all add: js_gt_def\<close>)
    from any[of "config fd"] a
    obtain p where p: "handleSubmit rt calculateShellPrice gc fd = Inr p" "payload_price p = ?v"
      by auto
    with any calculateShellPrice_pos(3)[OF u r] show ?thesis by auto
  qed
  have p2: "\<exists>p. handleSubmit rt csp gc fd = Inr p \<and> payload_price p = parseInt_s rt (price fd)"
    if "costType fd = Fixed \<and> config fd \<noteq> InvalidJSON \<and>
      \<not> (js_gt (parseFloat_s rt (usdCost fd)) (Fin 0) \<and>
         js_gt (parseFloat_s rt (globalRateText gc)) (Fin 0))"
    by (rule handleSubmit_kept) (use that in simp_all)
  have p3: "handleSubmit rt csp gc fd = Inl (Thrown ''SyntaxError'')" if "config fd = InvalidJSON"
    using that by (simp add: handleSubmit_def)
  have p4: "round_half_away (10 / 10 * phi * 10) = 16"
    using calculateShellPrice_pos(2)[of 10 10] floor_phi_10 by simp
  from p1 p2 p3 p4 show ?thesis by blast
qed

theorem fixed_price_from_global_rate_witness:
  "let fd = \<lparr>name = ''pin'', description = ''a pin'', image = [], price = ''7'', usdCost = ''10'',
              costType = Fixed, config = EmptyText, useRandomizedPricing = False\<rparr>;
       gc = \<lparr>dollars_per_hour = Some ''10'', price_random_min_percent = None,
              price_random_max_percent = None\<rparr>
   in costType fd = Fixed \<and> config fd \<noteq> InvalidJSON \<and>
      parseFloat_s example_runtime (usdCost fd) = Fin 10 \<and>
      parseFloat_s example_runtime (globalRateText gc) = Fin 10 \<and>
      10 / 10 * phi * 10 < 2 ^ 1023 \<and>
      (\<exists>p. handleSubmit example_runtime calculateShellPrice gc fd = Inr p \<and>
           payload_price p = Fin 16) \<and>
      \<not> js_gt (parseFloat_s example_runtime (usdCost (fd\<lparr>usdCost := ''0''\<rparr>))) (Fin 0) \<and>
      (\<exists>p. handleSubmit example_runtime calculateShellPrice gc (fd\<lparr>usdCost := ''0''\<rparr>) = Inr p \<and>
           payload_price p = Fin 7)"
proof -
  define fd where "fd = \<lparr>name = ''pin'', description = ''a pin'', image = [], price = ''7'',
      usdCost = ''10'', costType = Fixed, config = EmptyText, useRandomizedPricing = False\<rparr>"
  define gc where "gc = \<lparr>dollars_per_hour = Some ''10'', price_random_min_percent = None,
      price_random_max_percent = None\<rparr>"
  have h1: "costType fd = Fixed" and h2: "config fd \<noteq> InvalidJSON"
    by (simp_all add: fd_def)
  have h3: "parseFloat_s example_runtime (usdCost fd) = Fin 10"
    by (simp add: fd_def example_runtime_def example_numbers_def)
  have h4: "parseFloat_s example_runtime (globalRateText gc) = Fin 10"
    by (simp add: gc_def globalRateText_def example_runtime_def example_numbers_def)
  have pos: "(0::real) < 10" by simp
  have "phi * 10 < 17" using phi_bounds by simp
  moreover have "(17::real) < 2 ^ 1023" by simp
  ultimately have rng: "10 / 10 * phi * 10 < 2 ^ 1023" by simp
  note inst = fixed_price_from_global_rate[of fd example_runtime 10 gc 10 calculateShellPrice]
  from inst h1 h2 h3 h4 pos rng
  have ex: "\<exists>p. handleSubmit example_runtime calculateShellPrice gc fd = Inr p \<and>
           payload_price p = Fin (of_int (round_half_away (10 / 10 * phi * 10)))"
    by blast
  from inst have v16: "round_half_away (10 / 10 * phi * 10) = 16"
    by blast
  from ex have r1: "\<exists>p. handleSubmit example_runtime calculateShellPrice gc fd = Inr p \<and>
           payload_price p = Fin 16"
    by (simp only: v16 of_int_numeral)
  have g1: "costType (fd\<lparr>usdCost := ''0''\<rparr>) = Fixed \<and> config (fd\<lparr>usdCost := ''0''\<rparr>) \<noteq> InvalidJSON"
    by (simp add: fd_def)
  have g2: "\<not> js_gt (parseFloat_s example_runtime (usdCost (fd\<lparr>usdCost := ''0''\<rparr>))) (Fin 0)"
    by (simp add: js_gt_def example_runtime_def example_numbers_def)
  have pr: "parseInt_s example_runtime (price (fd\<lparr>usdCost := ''0''\<rparr>)) = Fin 7"
    by (simp add: fd_def example_runtime_def example_numbers_def)
  from fixed_price_from_global_rate[of "fd\<lparr>usdCost := ''0''\<rparr>" example_runtime _ gc _ calculateShellPrice]
    g1 g2
  have "\<exists>p. handleSubmit example_runtime calculateShellPrice gc (fd\<lparr>usdCost := ''0''\<rparr>) = Inr p \<and>
           payload_price p = parseInt_s example_runtime (price (fd\<lparr>usdCost := ''0''\<rparr>))"
    by blast
  with pr have r2: "\<exists>p. handleSubmit example_runtime calculateShellPrice gc (fd\<lparr>usdCost := ''0''\<rparr>) = Inr p \<and>
           payload_price p = Fin 7" by simp
  from h1 h2 h3 h4 rng r1 g2 r2 show ?thesis
    unfolding Let_def fd_def gc_def by blast
qed

text \<open>
  Claim C4 as stated fails twice. A fixed-cost item whose config holds a
  \<open>dollars_per_hour\<close> of 5 is priced at the global rate of 10, at 16 and not at 32; and a
  fixed-cost item with a USD cost of 0 keeps the price of the form, 7, where the formula
  gives 0.
\<close>

theorem fixed_price_counterexample:
  "handleSubmit example_runtime calculateShellPrice
     \<lparr>dollars_per_hour = Some ''10'', price_random_min_percent = None,
      price_random_max_percent = None\<rparr>
     \<lparr>name = ''pin'', description = ''a pin'', image = [], price = ''0'', usdCost = ''10'',
      costType = Fixed, config = Parsed (JObj [(''dollars_per_hour'', JNum (Fin 5))]),
      useRandomizedPricing = False\<rparr>
   = Inr \<lparr>payload_name = ''pin'', payload_description = ''a pin'', payload_image = None,
          payload_price = Fin 16, payload_usdCost = Fin 10, payload_costType = Fixed,
          payload_config = JObj [(''dollars_per_hour'', JNum (Fin 5))],
          payload_useRandomizedPricing = False\<rparr> \<and>
   round_half_away (10 / 5 * phi * 10) = 32 \<and>
   handleSubmit example_runtime calculateShellPrice
     \<lparr>dollars_per_hour = Some ''10'', price_random_min_percent = None,
      price_random_max_percent = None\<rparr>
     \<lparr>name = ''pin'', description = ''a pin'', image = [], price = ''7'', usdCost = ''0'',
      costType = Fixed, config = EmptyText, useRandomizedPricing = False\<rparr>
   = Inr \<lparr>payload_name = ''pin'', payload_description = ''a pin'', payload_image = None,
          payload_price = Fin 7, payload_usdCost = Fin 0, payload_costType = Fixed,
          payload_config = JNull, payload_useRandomizedPricing = False\<rparr> \<and>
   round_half_away (0 / 10 * phi * 10) = 0"
proof -
  have a: "calculateShellPrice (Fin 10) (Fin 10) = Inr (Fin 16)"
    using calculateShellPrice_pos(1,2)[of 10 10] floor_phi_10 by simp
  have b: "round_half_away (10 / 5 * phi * 10) = 32"
    using calculateShellPrice_pos(2)[of 10 5] floor_phi_20 by simp
  have c: "round_half_away (0 / 10 * phi * 10) = 0"
    by (simp add: round_half_away_def)
  have d: "handleSubmit example_runtime calculateShellPrice
     \<lparr>dollars_per_hour = Some ''10'', price_random_min_percent = None,
      price_random_max_percent = None\<rparr>
     \<lparr>name = ''pin'', description = ''a pin'', image = [], price = ''0'', usdCost = ''10'',
      costType = Fixed, config = Parsed (JObj [(''dollars_per_hour'', JNum (Fin 5))]),
      useRandomizedPricing = False\<rparr>
   = Inr \<lparr>payload_name = ''pin'', payload_description = ''a pin'', payload_image = None,
          payload_price = Fin 16, payload_usdCost = Fin 10, payload_costType = Fixed,
          payload_config = JObj [(''dollars_per_hour'', JNum (Fin 5))],
          payload_useRandomizedPricing = False\<rparr>"
    by (simp add: handleSubmit_def globalRateText_def example_runtime_def example_numbers_def
        js_gt_def a)
  have e: "handleSubmit example_runtime calculateShellPrice
     \<lparr>dollars_per_hour = Some ''10'', price_random_min_percent = None,
      price_random_max_percent = None\<rparr>
     \<lparr>name = ''pin'', description = ''a pin'', image = [], price = ''7'', usdCost = ''0'',
      costType = Fixed, config = EmptyText, useRandomizedPricing = False\<rparr>
   = Inr \<lparr>payload_name = ''pin'', payload_description = ''a pin'', payload_image = None,
          payload_price = Fin 7, payload_usdCost = Fin 0, payload_costType = Fixed,
          payload_config = JNull, payload_useRandomizedPricing = False\<rparr>"
    by (simp add: handleSubmit_def globalRateText_def example_runtime_def example_numbers_def
        js_gt_def)
  from d b e c show ?thesis by (intro conjI)
qed
text \<open>
  Claim C5, as amended. For an item whose config text is empty or JSON, \<open>handleSubmit\<close>
  calls \<open>calculateShellPrice\<close> only when the item is not a config item and its USD cost
  and the global rate are both above zero, and then sends what the call returns or fails
  as the call fails; for a cost or rate that is negative, zero or \<open>NaN\<close> it raises
  nothing and sends the price of the form as \<open>parseInt\<close> reads it. The auto-calculation
  for config items, given a USD cost and a truthy \<open>dollars_per_hour\<close> that read as finite
  numbers \<open>u\<close> and \<open>r\<close>, \<open>r\<close> not zero and the product within the range of doubles, sets
  the price to the integer \<open>Math.round((u / r) * phi * 10)\<close> without a check of its
  sign: a negative integer when the product is below \<open>-1/2\<close>.
\<close>

theorem no_cost_basis_check:
  "(config fd \<noteq> InvalidJSON \<and>
    \<not> (costType fd \<noteq> Config \<and> js_gt (parseFloat_s rt (usdCost fd)) (Fin 0) \<and>
       js_gt (parseFloat_s rt (globalRateText gc)) (Fin 0)) \<longrightarrow>
      (\<exists>p. handleSubmit rt csp gc fd = Inr p \<and> payload_price p = parseInt_s rt (price fd))) \<and>
   (config fd \<noteq> InvalidJSON \<and> costType fd \<noteq> Config \<and>
    js_gt (parseFloat_s rt (usdCost fd)) (Fin 0) \<and>
    js_gt (parseFloat_s rt (globalRateText gc)) (Fin 0) \<longrightarrow>
      (\<forall>v. csp (parseFloat_s rt (usdCost fd)) (parseFloat_s rt (globalRateText gc)) = Inr v \<longrightarrow>
         (\<exists>p. handleSubmit rt csp gc fd = Inr p \<and> payload_price p = v)) \<and>
      (\<forall>e. csp (parseFloat_s rt (usdCost fd)) (parseFloat_s rt (globalRateText gc)) = Inl e \<longrightarrow>
         handleSubmit rt csp gc fd = Inl e)) \<and>
   (\<forall>d u r. costType fd = Config \<and> getProp (configObj fd) ''dollars_per_hour'' = Inr d \<and>
      truthy d \<and> parseFloat_s rt (usdCost fd) = Fin u \<and> parseFloat rt d = Inr (Fin r) \<and>
      r \<noteq> 0 \<and> \<bar>u / r * phi * 10\<bar> < 2 ^ 1023 \<longrightarrow>
      autoCalculatePrice rt fd =
        Inr (fd\<lparr>price := Number_toString rt (Fin (of_int \<lfloor>u / r * phi * 10 + 1 / 2\<rfloor>))\<rparr>) \<and>
      (u / r * phi * 10 < - (1 / 2) \<longrightarrow> \<lfloor>u / r * phi * 10 + 1 / 2\<rfloor> < 0))"
proof -
  have p1: "\<exists>p. handleSubmit rt csp gc fd = Inr p \<and> payload_price p = parseInt_s rt (price fd)"
    if "config fd \<noteq> InvalidJSON \<and>
      \<not> (costType fd \<noteq> Config \<and> js_gt (parseFloat_s rt (usdCost fd)) (Fin 0) \<and>
         js_gt (parseFloat_s rt (globalRateText gc)) (Fin 0))"
    using that handleSubmit_kept by blast
  have p2: "\<exists>p. handleSubmit rt csp gc fd = Inr p \<and> payload_price p = v"
    if "config fd \<noteq> InvalidJSON \<and> costType fd \<noteq> Config \<and>
      js_gt (parseFloat_s rt (usdCost fd)) (Fin 0) \<and>
      js_gt (parseFloat_s rt (globalRateText gc)) (Fin 0)"
      and "csp (parseFloat_s rt (usdCost fd)) (parseFloat_s rt (globalRateText gc)) = Inr v" for v
    by (rule handleSubmit_computed) (use that in simp_all)
  have p3: "handleSubmit rt csp gc fd = Inl e"
    if "config fd \<noteq> InvalidJSON \<and> costType fd \<noteq> Config \<and>
      js_gt (parseFloat_s rt (usdCost fd)) (Fin 0) \<and>
      js_gt (parseFloat_s rt (globalRateText gc)) (Fin 0)"
      and "csp (parseFloat_s rt (usdCost fd)) (parseFloat_s rt (globalRateText gc)) = Inl e" for e
    using that by (cases "config fd") (simp_all add: handleSubmit_def Let_def)
  have p4: "autoCalculatePrice rt fd =
        Inr (fd\<lparr>price := Number_toString rt (Fin (of_int \<lfloor>u / r * phi * 10 + 1 / 2\<rfloor>))\<rparr>)"
    if a: "costType fd = Config \<and> getProp (configObj fd) ''dollars_per_hour'' = Inr d \<and>
      truthy d \<and> parseFloat_s rt (usdCost fd) = Fin u \<and> parseFloat rt d = Inr (Fin r) \<and> r \<noteq> 0"
    for d u r
  proof -
    from a have "autoCalculatePrice rt fd =
           Inr (fd\<lparr>price := Number_toString rt
                  (shellsOf (js_div (parseFloat_s rt (usdCost fd)) (Fin r)))\<rparr>)"
      by (intro autoCalc_rate[where d = d]) simp_all
    moreover from a have "shellsOf (js_div (parseFloat_s rt (usdCost fd)) (Fin r))
        = Fin (of_int \<lfloor>u / r * phi * 10 + 1 / 2\<rfloor>)"
      using shellsOf_div[of r u] by (simp del: js_div.simps)
    ultimately show ?thesis by (simp only:)
  qed
  have p5: "\<lfloor>y + 1 / 2\<rfloor> < 0" if "y < - (1 / 2)" for y :: real
    using that by (simp add: floor_less_iff)
  from p1 p2 p3 p4 p5 show ?thesis by blast
qed

theorem no_cost_basis_check_witness:
  "let fd = \<lparr>name = ''pin'', description = ''a pin'', image = [], price = ''7'', usdCost = ''-10'',
              costType = Fixed, config = EmptyText, useRandomizedPricing = False\<rparr>;
       gc = \<lparr>dollars_per_hour = Some ''10'', price_random_min_percent = None,
              price_random_max_percent = None\<rparr>;
       fe = \<lparr>name = ''trip'', description = ''a trip'', image = [], price = ''0'', usdCost = ''-10'',
              costType = Config, config = Parsed (JObj [(''dollars_per_hour'', JNum (Fin 10))]),
              useRandomizedPricing = False\<rparr>
   in config fd \<noteq> InvalidJSON \<and>
      \<not> js_gt (parseFloat_s example_runtime (usdCost fd)) (Fin 0) \<and>
      (\<exists>p. handleSubmit example_runtime calculateShellPrice gc fd = Inr p \<and>
           payload_price p = Fin 7) \<and>
      costType fe = Config \<and>
      getProp (configObj fe) ''dollars_per_hour'' = Inr (JNum (Fin 10)) \<and>
      truthy (JNum (Fin 10)) \<and> parseFloat_s example_runtime (usdCost fe) = Fin (- 10) \<and>
      parseFloat example_runtime (JNum (Fin 10)) = Inr (Fin 10) \<and>
      \<bar>- 10 / 10 * phi * 10\<bar> < 2 ^ 1023 \<and>
      autoCalculatePrice example_runtime fe = Inr (fe\<lparr>price := ''-16''\<rparr>)"
proof -
  define fd where "fd = \<lparr>name = ''pin'', description = ''a pin'', image = [], price = ''7'',
      usdCost = ''-10'', costType = Fixed, config = EmptyText, useRandomizedPricing = False\<rparr>"
  define gc where "gc = \<lparr>dollars_per_hour = Some ''10'', price_random_min_percent = None,
      price_random_max_percent = None\<rparr>"
  define fe where "fe = \<lparr>name = ''trip'', description = ''a trip'', image = [], price = ''0'',
      usdCost = ''-10'', costType = Config,
      config = Parsed (JObj [(''dollars_per_hour'', JNum (Fin 10))]),
      useRandomizedPricing = False\<rparr>"
  have h1: "config fd \<noteq> InvalidJSON" by (simp add: fd_def)
  have h2: "\<not> js_gt (parseFloat_s example_runtime (usdCost fd)) (Fin 0)"
    by (simp add: fd_def js_gt_def example_runtime_def example_numbers_def)
  have pr: "parseInt_s example_runtime (price fd) = Fin 7"
    by (simp add: fd_def example_runtime_def example_numbers_def)
  from no_cost_basis_check[of fd example_runtime gc calculateShellPrice] h1 h2
  have "\<exists>p. handleSubmit example_runtime calculateShellPrice gc fd = Inr p \<and>
           payload_price p = parseInt_s example_runtime (price fd)"
    by blast
  with pr have r1: "\<exists>p. handleSubmit example_runtime calculateShellPrice gc fd = Inr p \<and>
           payload_price p = Fin 7" by simp
  have g1: "costType fe = Config" by (simp add: fe_def)
  have g2: "getProp (configObj fe) ''dollars_per_hour'' = Inr (JNum (Fin 10))"
    by (simp add: fe_def configObj_def)
  have g3: "truthy (JNum (Fin 10))" by simp
  have g4: "parseFloat_s example_runtime (usdCost fe) = Fin (- 10)"
    by (simp add: fe_def example_runtime_def example_numbers_def)
  have g5: "parseFloat example_runtime (JNum (Fin 10)) = Inr (Fin 10)"
    by (simp add: parseFloat_def example_runtime_def example_numbers_def)
  have g6: "(10::real) \<noteq> 0" by simp
  have "\<bar>phi * 10\<bar> < 17" using phi_bounds by simp
  moreover have "(17::real) < 2 ^ 1023" by simp
  ultimately have g7: "\<bar>- 10 / 10 * phi * 10\<bar> < 2 ^ 1023" by simp
  have fl: "\<lfloor>- 10 / 10 * phi * 10 + 1 / 2\<rfloor> = - 16"
    using floor_phi_m10 by simp
  have str: "Number_toString example_runtime (Fin (- 16)) = ''-16''"
    by (simp add: example_runtime_def example_numbers_def)
  from no_cost_basis_check[of fe example_runtime gc calculateShellPrice] g1 g2 g3 g4 g5 g6 g7
  have "autoCalculatePrice example_runtime fe =
        Inr (fe\<lparr>price := Number_toString example_runtime
               (Fin (of_int \<lfloor>- 10 / 10 * phi * 10 + 1 / 2\<rfloor>))\<rparr>)"
    by blast
  then have r2: "autoCalculatePrice example_runtime fe = Inr (fe\<lparr>price := ''-16''\<rparr>)"
    by (simp only: fl str of_int_minus of_int_numeral)
  from h1 h2 r1 g1 g2 g3 g4 g5 g7 r2 show ?thesis
    unfolding Let_def fd_def gc_def fe_def by blast
qed

text \<open>
  Claim C5 as stated fails on a config item with a rate of 10 and a USD cost of -10: the
  auto-calculation sets the price to -16 and raises nothing.
\<close>

theorem no_cost_basis_check_counterexample:
  "autoCalculatePrice example_runtime
     \<lparr>name = ''trip'', description = ''a trip'', image = [], price = ''0'', usdCost = ''-10'',
      costType = Config,
      config = Parsed (JObj [(''dollars_per_hour'', JNum (Fin 10))]),
      useRandomizedPricing = False\<rparr>
   = Inr \<lparr>name = ''trip'', description = ''a trip'', image = [], price = ''-16'',
      usdCost = ''-10'', costType = Config,
      config = Parsed (JObj [(''dollars_per_hour'', JNum (Fin 10))]),
      useRandomizedPricing = False\<rparr>"
proof -
  have sh: "shellsOf (Fin (- 1)) = Fin (- 16)"
    using shellsOf_Fin[of "- 1"] floor_phi_m10 by simp
  show ?thesis
    by (simp add: autoCalculatePrice_def configObj_def setPrice_def parseFloat_def sh Let_def
        example_runtime_def example_numbers_def)
qed




section \<open>Properties of the project update\<close>

lemma updateFields_keys: "''hoursOverride'' \<notin> fst ` set (updateFields u pd)"
proof -
  have "''hoursOverride'' \<notin> fst ` set (filter P (AList.delete ''hoursOverride'' xs))" for P and xs :: "(string \<times> jsval) list"
    using delete_notin_dom[of "''hoursOverride''" xs] by auto
  then show ?thesis
    by (simp add: updateFields_def Let_def)
qed

lemma writeColumns_other:
  "k \<notin> fst ` set data \<Longrightarrow> map_of (writeColumns data cols) k = map_of cols k"
  unfolding writeColumns_def
  by (induction data arbitrary: cols) (auto simp: update_conv')

lemma PUT_project_table:
  "project_table (snd (PUT rt accepts u b db)) = project_table db \<or>
   (\<exists>pid row pd. projectData rt b = Inr pd \<and> project_table db pid = Some row \<and>
      project_table (snd (PUT rt accepts u b db)) =
        (project_table db)(pid \<mapsto> row\<lparr>columns := writeColumns (updateFields u pd) (columns row)\<rparr>))"
  by (auto simp: PUT_def Let_def split: sum.splits jsval.splits option.splits prod.splits)

lemma PUT_link_table:
  "\<not> isAdminUser u \<Longrightarrow> \<not> isReviewerUser u \<Longrightarrow>
   link_table (snd (PUT rt accepts u b db)) = link_table db"
  by (auto simp: PUT_def Let_def split: sum.splits jsval.splits option.splits prod.splits)

text \<open>
  Claim C9, as amended. Whoever calls, the data passed to the update of the project have
  no \<open>hoursOverride\<close>, and no stored project gets another \<open>hoursOverride\<close> column by the
  request. The links of the store are left as they are unless the caller is an admin, by
  the role \<open>Admin\<close> or by the \<open>isAdmin\<close> flag, or has the role \<open>Reviewer\<close>.
\<close>

theorem hoursOverride_only_by_admin_or_reviewer:
  "''hoursOverride'' \<notin> fst ` set (updateFields u pd) \<and>
   (\<forall>pid row. project_table db pid = Some row \<longrightarrow>
      (\<exists>row'. project_table (snd (PUT rt accepts u b db)) pid = Some row' \<and>
         map_of (columns row') ''hoursOverride'' = map_of (columns row) ''hoursOverride'')) \<and>
   (role u \<noteq> ''Admin'' \<and> \<not> isAdmin u \<and> role u \<noteq> ''Reviewer'' \<longrightarrow>
      link_table (snd (PUT rt accepts u b db)) = link_table db)"
proof (intro conjI allI impI)
  show "''hoursOverride'' \<notin> fst ` set (updateFields u pd)"
    by (rule updateFields_keys)
next
  fix pid row
  assume row: "project_table db pid = Some row"
  from PUT_project_table[of rt accepts u b db]
  show "\<exists>row'. project_table (snd (PUT rt accepts u b db)) pid = Some row' \<and>
         map_of (columns row') ''hoursOverride'' = map_of (columns row) ''hoursOverride''"
  proof
    assume "project_table (snd (PUT rt accepts u b db)) = project_table db"
    with row show ?thesis by simp
  next
    assume "\<exists>pid row pd. projectData rt b = Inr pd \<and> project_table db pid = Some row \<and>
      project_table (snd (PUT rt accepts u b db)) =
        (project_table db)(pid \<mapsto> row\<lparr>columns := writeColumns (updateFields u pd) (columns row)\<rparr>)"
    then obtain pid' row0 pd' where w: "project_table db pid' = Some row0"
      "project_table (snd (PUT rt accepts u b db)) =
        (project_table db)(pid' \<mapsto> row0\<lparr>columns := writeColumns (updateFields u pd') (columns row0)\<rparr>)"
      by blast
    show ?thesis
    proof (cases "pid = pid'")
      case True
      with row w(1) have "row0 = row" by simp
      with True w(2) show ?thesis
        by (simp add: writeColumns_other[OF updateFields_keys])
    next
      case False
      with row w(2) show ?thesis by simp
    qed
  qed
next
  assume "role u \<noteq> ''Admin'' \<and> \<not> isAdmin u \<and> role u \<noteq> ''Reviewer''"
  then show "link_table (snd (PUT rt accepts u b db)) = link_table db"
    by (intro PUT_link_table) (simp_all add: isAdminUser_def isReviewerUser_def)
qed

theorem hoursOverride_only_by_admin_or_reviewer_witness:
  "let u = \<lparr>user_id = ''u2'', role = ''User'', isAdmin = False\<rparr>;
       b = Json (JObj [(''projectID'', JStr ''p1''), (''name'', JStr ''boat''),
                       (''hoursOverride'', JNum (Fin 9)),
                       (''hackatimeLinkOverrides'', JObj [(''l1'', JNum (Fin 5))])]);
       l = \<lparr>link_id = ''l1'', hackatimeName = ''game'', rawHours = JNum (Fin 2),
              hoursOverride = JNull\<rparr>;
       db = \<lparr>project_table = [''p1'' \<mapsto> \<lparr>owner = ''u2'', columns = [(''name'', JStr ''raft'')]\<rparr>],
              link_table = [''l1'' \<mapsto> l]\<rparr>
   in role u \<noteq> ''Admin'' \<and> \<not> isAdmin u \<and> role u \<noteq> ''Reviewer'' \<and>
      fst (PUT example_runtime accepts_all u b db) = 200 \<and>
      project_table (snd (PUT example_runtime accepts_all u b db)) ''p1'' =
        Some \<lparr>owner = ''u2'', columns = [(''name'', JStr ''boat'')]\<rparr> \<and>
      link_table (snd (PUT example_runtime accepts_all u b db)) = link_table db"
proof -
  define u where "u = \<lparr>user_id = ''u2'', role = ''User'', isAdmin = False\<rparr>"
  define b where "b = Json (JObj [(''projectID'', JStr ''p1''), (''name'', JStr ''boat''),
                       (''hoursOverride'', JNum (Fin 9)),
                       (''hackatimeLinkOverrides'', JObj [(''l1'', JNum (Fin 5))])])"
  define l where "l = \<lparr>link_id = ''l1'', hackatimeName = ''game'', rawHours = JNum (Fin 2),
              hoursOverride = JNull\<rparr>"
  define db where "db = \<lparr>project_table = [''p1'' \<mapsto> \<lparr>owner = ''u2'', columns = [(''name'', JStr ''raft'')]\<rparr>],
              link_table = [''l1'' \<mapsto> l]\<rparr>"
  have h: "role u \<noteq> ''Admin'' \<and> \<not> isAdmin u \<and> role u \<noteq> ''Reviewer''"
    by (simp add: u_def)
  from hoursOverride_only_by_admin_or_reviewer[of u _ db example_runtime accepts_all b] h
  have lt: "link_table (snd (PUT example_runtime accepts_all u b db)) = link_table db"
    by blast
  have ev: "PUT example_runtime accepts_all u b db =
      (200, db\<lparr>project_table := [''p1'' \<mapsto> \<lparr>owner = ''u2'', columns = [(''name'', JStr ''boat'')]\<rparr>]\<rparr>)"
    by (simp add: PUT_def projectData_def updateFields_def userUpdateableFields_def
        nonUpdateableFields_def isAdminUser_def isReviewerUser_def accepts_all_def
        writeColumns_def u_def b_def db_def AList.delete_eq)
  from h lt ev show ?thesis
    unfolding Let_def u_def b_def l_def db_def by simp
qed

text \<open>
  Claim C9 as stated fails for a caller whose role is \<open>User\<close> and whose \<open>isAdmin\<close> flag
  is set: the override of 5 hours is written to the link.
\<close>

theorem hoursOverride_by_role_counterexample:
  "link_table (snd (PUT example_runtime accepts_all
     \<lparr>user_id = ''u1'', role = ''User'', isAdmin = True\<rparr>
     (Json (JObj [(''projectID'', JStr ''p1''),
                  (''hackatimeLinkOverrides'', JObj [(''l1'', JNum (Fin 5))])]))
     \<lparr>project_table = [''p1'' \<mapsto> \<lparr>owner = ''u2'', columns = [(''name'', JStr ''raft'')]\<rparr>],
      link_table = [''l1'' \<mapsto> \<lparr>link_id = ''l1'', hackatimeName = ''game'',
                                 rawHours = JNum (Fin 2), hoursOverride = JNull\<rparr>]\<rparr>)) ''l1''
   = Some \<lparr>link_id = ''l1'', hackatimeName = ''game'', rawHours = JNum (Fin 2),
           hoursOverride = JNum (Fin 5)\<rparr>"
  by (simp add: PUT_def projectData_def updateFields_def userUpdateableFields_def
        nonUpdateableFields_def isAdminUser_def isReviewerUser_def accepts_all_def
        writeColumns_def AList.delete_eq Object_entries_def arrayIndex_def digit_def)
section \<open>Properties of the price sampler\<close>






end
